theory Spec2Isabelle
  imports Complex_Main "HOL-Library.Char_ord" "HOL-Library.List_Lexorder"
begin

section \<open>Python strings\<close>

text \<open>
  Strings are byte lists. \<open>str.lower\<close> is modelled on the ASCII letters, which is
  all the column names of the source's own literals use; other bytes are left alone.
\<close>

definition lower_char :: "char \<Rightarrow> char" where
  "lower_char c =
     (case map_of (zip ''ABCDEFGHIJKLMNOPQRSTUVWXYZ'' ''abcdefghijklmnopqrstuvwxyz'') c of
        Some d \<Rightarrow> d
      | None \<Rightarrow> c)"

definition lower :: "string \<Rightarrow> string" where
  "lower s = map lower_char s"

fun startswith :: "string \<Rightarrow> string \<Rightarrow> bool" where
  "startswith s [] = True"
| "startswith [] (p # ps) = False"
| "startswith (c # cs) (p # ps) = (c = p \<and> startswith cs ps)"

text \<open>\<open>contains s sub\<close> is Python's \<open>sub in s\<close> on strings.\<close>

fun contains :: "string \<Rightarrow> string \<Rightarrow> bool" where
  "contains [] sub = (sub = [])"
| "contains (c # cs) sub = (startswith (c # cs) sub \<or> contains cs sub)"

definition endswith :: "string \<Rightarrow> string \<Rightarrow> bool" where
  "endswith s suf = startswith (rev s) (rev suf)"

text \<open>
  A string between apostrophes, as \<open>repr\<close> prints a string without an apostrophe or
  an escape of its own, and as error messages print a type name.
\<close>

definition quoted :: "string \<Rightarrow> string" where
  "quoted s = [CHR 0x27] @ s @ [CHR 0x27]"

section \<open>Numbers\<close>

text \<open>
  A float64 value is a rational, an infinity or NaN. Rounding and the sign of zero are
  not modelled: arithmetic on finite values is exact.
\<close>

datatype float64 = Fin rat | PInf | NInf | NaN

fun fneg :: "float64 \<Rightarrow> float64" where
  "fneg (Fin a) = Fin (- a)"
| "fneg PInf = NInf"
| "fneg NInf = PInf"
| "fneg NaN = NaN"

fun fadd :: "float64 \<Rightarrow> float64 \<Rightarrow> float64" where
  "fadd NaN y = NaN"
| "fadd x NaN = NaN"
| "fadd (Fin a) (Fin b) = Fin (a + b)"
| "fadd (Fin a) y = y"
| "fadd x (Fin b) = x"
| "fadd PInf PInf = PInf"
| "fadd NInf NInf = NInf"
| "fadd PInf NInf = NaN"
| "fadd NInf PInf = NaN"

definition fsub :: "float64 \<Rightarrow> float64 \<Rightarrow> float64" where
  "fsub x y = fadd x (fneg y)"

definition inf_of_sign :: "rat \<Rightarrow> float64" where
  "inf_of_sign a = (if a = 0 then NaN else if 0 < a then PInf else NInf)"

fun fmul :: "float64 \<Rightarrow> float64 \<Rightarrow> float64" where
  "fmul NaN y = NaN"
| "fmul x NaN = NaN"
| "fmul (Fin a) (Fin b) = Fin (a * b)"
| "fmul (Fin a) PInf = inf_of_sign a"
| "fmul (Fin a) NInf = inf_of_sign (- a)"
| "fmul PInf (Fin b) = inf_of_sign b"
| "fmul NInf (Fin b) = inf_of_sign (- b)"
| "fmul PInf PInf = PInf"
| "fmul NInf NInf = PInf"
| "fmul PInf NInf = NInf"
| "fmul NInf PInf = NInf"

fun fdiv :: "float64 \<Rightarrow> float64 \<Rightarrow> float64" where
  "fdiv NaN y = NaN"
| "fdiv x NaN = NaN"
| "fdiv (Fin a) (Fin b) = (if b = 0 then inf_of_sign a else Fin (a / b))"
| "fdiv (Fin a) y = Fin 0"
| "fdiv PInf (Fin b) = (if 0 \<le> b then PInf else NInf)"
| "fdiv NInf (Fin b) = (if 0 \<le> b then NInf else PInf)"
| "fdiv x y = NaN"

text \<open>\<open>fgt x b\<close> is \<open>x > b\<close>; every comparison with NaN is false.\<close>

fun fgt :: "float64 \<Rightarrow> rat \<Rightarrow> bool" where
  "fgt (Fin a) b = (b < a)"
| "fgt PInf b = True"
| "fgt NInf b = False"
| "fgt NaN b = False"

text \<open>The mean of a sequence that skips NaN, as pandas' \<open>mean\<close> does by default.\<close>

definition nanmean :: "float64 list \<Rightarrow> float64" where
  "nanmean xs =
     (let vs = filter (\<lambda>v. v \<noteq> NaN) xs
      in if vs = [] then NaN else fdiv (foldl fadd (Fin 0) vs) (Fin (of_nat (length vs))))"

section \<open>Exceptions\<close>

datatype exn =
    ValueError string
  | TypeError string
  | KeyError string
  | FileNotFoundError string
  | LibraryError string

text \<open>
  \<open>str(e)\<close>: the message of the exception. A \<open>KeyError\<close> prints the \<open>repr\<close> of
  its key, and the \<open>FileNotFoundError\<close> of a missing file (which holds the path)
  prints the text of errno 2 with the \<open>repr\<close> of the path.
\<close>

fun str :: "exn \<Rightarrow> string" where
  "str (ValueError m) = m"
| "str (TypeError m) = m"
| "str (KeyError k) = quoted k"
| "str (FileNotFoundError path) = ''[Errno 2] No such file or directory: '' @ quoted path"
| "str (LibraryError m) = m"

section \<open>Data frames\<close>

text \<open>
  A column is an int64 column (which has no missing cell), a float64 column (NaN is the
  missing cell) or an object column of strings (\<open>None\<close> is the missing cell). Column
  labels are strings. The cells of an int64 column are integers of the int64 range: the
  model does not bound them, and a file with a larger integer, which pandas reads as
  uint64 or object, is outside the model, as are the columns of the other dtypes (bool,
  datetime, category).
\<close>

datatype column = IntCol "int list" | FloatCol "float64 list" | ObjCol "string option list"

record dataframe =
  index_len :: nat
  cols :: "(string \<times> column) list"

definition columns_of :: "dataframe \<Rightarrow> string list" where
  "columns_of df = map fst (cols df)"

fun col_len :: "column \<Rightarrow> nat" where
  "col_len (IntCol xs) = length xs"
| "col_len (FloatCol xs) = length xs"
| "col_len (ObjCol xs) = length xs"

definition wf_df :: "dataframe \<Rightarrow> bool" where
  "wf_df df \<longleftrightarrow>
     distinct (columns_of df) \<and> list_all (\<lambda>c. col_len (snd c) = index_len df) (cols df)"

text \<open>\<open>df[name]\<close>\<close>

definition getitem :: "dataframe \<Rightarrow> string \<Rightarrow> exn + column" where
  "getitem df name =
     (case map_of (cols df) name of None \<Rightarrow> Inl (KeyError name) | Some c \<Rightarrow> Inr c)"

text \<open>\<open>df[name] = c\<close>: an existing column is replaced in place, a new one is appended.\<close>

definition setitem :: "dataframe \<Rightarrow> string \<Rightarrow> column \<Rightarrow> dataframe" where
  "setitem df name c =
     (if name \<in> set (columns_of df)
      then df\<lparr>cols := map (\<lambda>(n, old). if n = name then (n, c) else (n, old)) (cols df)\<rparr>
      else df\<lparr>cols := cols df @ [(name, c)]\<rparr>)"

fun null_count :: "column \<Rightarrow> nat" where
  "null_count (IntCol xs) = 0"
| "null_count (FloatCol xs) = length (filter (\<lambda>v. v = NaN) xs)"
| "null_count (ObjCol xs) = length (filter (\<lambda>v. v = None) xs)"

text \<open>\<open>df.isnull().sum().sum()\<close>\<close>

definition isnull_sum_sum :: "dataframe \<Rightarrow> nat" where
  "isnull_sum_sum df = sum_list (map (\<lambda>c. null_count (snd c)) (cols df))"

fun dtype_str :: "column \<Rightarrow> string" where
  "dtype_str (IntCol xs) = ''int64''"
| "dtype_str (FloatCol xs) = ''float64''"
| "dtype_str (ObjCol xs) = ''object''"

fun is_number :: "column \<Rightarrow> bool" where
  "is_number (IntCol xs) = True"
| "is_number (FloatCol xs) = True"
| "is_number (ObjCol xs) = False"

text \<open>\<open>df.select_dtypes(include=[np.number]).columns\<close> and \<open>include=['object']\<close>\<close>

definition select_number :: "dataframe \<Rightarrow> string list" where
  "select_number df = map fst (filter (\<lambda>c. is_number (snd c)) (cols df))"

definition select_object :: "dataframe \<Rightarrow> string list" where
  "select_object df = map fst (filter (\<lambda>c. \<not> is_number (snd c)) (cols df))"

text \<open>
  The cells of a column as Python sees them in arithmetic: the name of the cell's type
  and, for a number, its value. A missing cell of an object column is the float NaN.
\<close>

fun operands :: "column \<Rightarrow> (string \<times> float64 option) list" where
  "operands (IntCol xs) = map (\<lambda>i. (''int'', Some (Fin (of_int i)))) xs"
| "operands (FloatCol xs) = map (\<lambda>x. (''float'', Some x)) xs"
| "operands (ObjCol xs) =
     map (\<lambda>v. case v of None \<Rightarrow> (''float'', Some NaN) | Some x \<Rightarrow> (''str'', None)) xs"

text \<open>
  True division, cell by cell: the first row with a string raises the \<open>TypeError\<close> of
  Python's operator, which names the types of the two cells.
\<close>

fun div_cells ::
  "(string \<times> float64 option) list \<Rightarrow> (string \<times> float64 option) list \<Rightarrow> exn + float64 list"
  where
  "div_cells ((ta, Some x) # xs) ((tb, Some y) # ys) =
     (case div_cells xs ys of Inl e \<Rightarrow> Inl e | Inr zs \<Rightarrow> Inr (fdiv x y # zs))"
| "div_cells ((ta, x) # xs) ((tb, y) # ys) =
     Inl (TypeError (''unsupported operand type(s) for /: '' @ quoted ta @ '' and '' @ quoted tb))"
| "div_cells xs ys = Inr []"

text \<open>
  \<open>a / b\<close> on two columns of one frame. The quotient is given as a float64 column also
  where pandas keeps the object dtype of an operand.
\<close>

definition series_div :: "column \<Rightarrow> column \<Rightarrow> exn + column" where
  "series_div a b =
     (case div_cells (operands a) (operands b) of
        Inl e \<Rightarrow> Inl e
      | Inr zs \<Rightarrow> Inr (FloatCol zs))"

text \<open>
  The numbers of a column for a mean. A column with a string cell raises \<open>TypeError\<close>;
  the text of that message is the library's and differs between its versions, the one
  given here is a stand-in. An object column without a string cell (an empty column, as
  read from a file that has only a header) is a column of NaN.
\<close>

fun to_float :: "column \<Rightarrow> exn + float64 list" where
  "to_float (IntCol xs) = Inr (map (\<lambda>i. Fin (of_int i)) xs)"
| "to_float (FloatCol xs) = Inr xs"
| "to_float (ObjCol xs) =
     (if list_all (\<lambda>v. v = None) xs then Inr (map (\<lambda>v. NaN) xs)
      else Inl (TypeError ''could not convert string to numeric''))"

text \<open>\<open>df[name].mean()\<close>\<close>

definition series_mean :: "column \<Rightarrow> exn + float64" where
  "series_mean c = (case to_float c of Inl e \<Rightarrow> Inl e | Inr xs \<Rightarrow> Inr (nanmean xs))"

fun float_columns :: "dataframe \<Rightarrow> string list \<Rightarrow> exn + float64 list list" where
  "float_columns df [] = Inr []"
| "float_columns df (n # ns) =
     (case getitem df n of
        Inl e \<Rightarrow> Inl e
      | Inr c \<Rightarrow>
          (case to_float c of
             Inl e \<Rightarrow> Inl e
           | Inr xs \<Rightarrow>
               (case float_columns df ns of
                  Inl e \<Rightarrow> Inl e
                | Inr xss \<Rightarrow> Inr (xs # xss))))"

definition cell :: "float64 list \<Rightarrow> nat \<Rightarrow> float64" where
  "cell xs i = (if i < length xs then xs ! i else NaN)"

text \<open>\<open>df[names].mean(axis=1)\<close>: the mean of each row over the named columns.\<close>

definition mean_axis1 :: "dataframe \<Rightarrow> string list \<Rightarrow> exn + column" where
  "mean_axis1 df names =
     (case float_columns df names of
        Inl e \<Rightarrow> Inl e
      | Inr xss \<Rightarrow>
          Inr (FloatCol (map (\<lambda>i. nanmean (map (\<lambda>xs. cell xs i) xss)) [0..<index_len df])))"

section \<open>Events, world and state\<close>

text \<open>
  The events are the dictionaries \<open>log_output\<close> receives, one constructor for each
  \<open>type\<close>; the records keep the keys of the source.
\<close>

record summary_detail =
  columns :: "string list"
  dtypes :: "(string \<times> string) list"
  numerical_cols :: "string list"
  categorical_cols :: "string list"
  target_column :: "string option"

record dataset_summary =
  totalRecords :: nat
  features :: nat
  missingValues :: nat
  defaultRate :: float64
  dataQuality :: string
  summary :: summary_detail

record completed_info =
  accuracy :: rat
  precision :: rat
  recall :: rat
  f1Score :: rat
  rocAuc :: rat
  featureImportance :: "(string list \<times> rat list) option"
  hyperparameters :: "(string \<times> string) list"
  trainingTime :: nat

datatype update = Training nat | Completed completed_info

fun status :: "update \<Rightarrow> string" where
  "status (Training progress) = ''training''"
| "status (Completed info) = ''completed''"

record roc_entry =
  fpr :: "rat list"
  tpr :: "rat list"
  auc :: rat

datatype event =
    FeatureEngineering string string
  | DatasetSummary dataset_summary
  | ModelUpdate string update
  | RocData "(string \<times> roc_entry) list"
  | BestModel "string option" rat
  | Error string

text \<open>
  What one tuned candidate yields: the held-out metrics, the test labels and
  probabilities, the attributes of the best estimator that the source looks for
  (\<open>feature_importances_\<close>, the first row of \<open>coef_\<close>), the chosen parameters and
  the elapsed milliseconds.
\<close>

record fit_result =
  acc :: rat
  prec :: rat
  rec :: rat
  f1 :: rat
  roc_auc :: rat
  y_pred_proba :: "rat list"
  y_test :: "float64 list"
  feature_importances :: "rat list option"
  coef0 :: "rat list option"
  best_params :: "(string \<times> string) list"
  elapsed_ms :: nat

text \<open>
  The libraries and the operating system are parameters of the model: whether the JSON
  encoder rejects a payload that carries values computed by a library, whether a write
  fails, and what the split, the grid search and the ROC curve return or raise.
\<close>

record world =
  encoder_error :: "event \<Rightarrow> exn option"
  to_csv_error :: "string \<Rightarrow> exn option"
  split_scale_error :: "dataframe \<Rightarrow> column \<Rightarrow> exn option"
  fit_evaluate :: "string \<Rightarrow> dataframe \<Rightarrow> column \<Rightarrow> exn + fit_result"
  joblib_dump_error :: "string \<Rightarrow> exn option"
  roc_curve :: "float64 list \<Rightarrow> rat list \<Rightarrow> exn + (rat list \<times> rat list)"

text \<open>
  The state a stage changes: the lines written to standard output, and the tables the
  files hold (a path is read as the frame stored under it).
\<close>

record state =
  stdout :: "event list"
  files :: "string \<Rightarrow> dataframe option"

section \<open>Statements that may raise\<close>

definition bind_m ::
  "(state \<Rightarrow> (exn + 'a) \<times> state) \<Rightarrow> ('a \<Rightarrow> state \<Rightarrow> (exn + 'b) \<times> state) \<Rightarrow>
   state \<Rightarrow> (exn + 'b) \<times> state" where
  "bind_m m f s = (case m s of (Inl e, s') \<Rightarrow> (Inl e, s') | (Inr a, s') \<Rightarrow> f a s')"

definition return_m :: "'a \<Rightarrow> state \<Rightarrow> (exn + 'a) \<times> state" where
  "return_m a s = (Inr a, s)"

definition lift :: "exn + 'a \<Rightarrow> state \<Rightarrow> (exn + 'a) \<times> state" where
  "lift r s = (r, s)"

text \<open>
  \<open>json.dumps\<close> accepts a payload of string literals and \<open>str\<close> values; on the
  other payloads the encoder of the world decides.
\<close>

definition json_dumps_error :: "world \<Rightarrow> event \<Rightarrow> exn option" where
  "json_dumps_error w data =
     (case data of
        FeatureEngineering feature st \<Rightarrow> None
      | Error message \<Rightarrow> None
      | _ \<Rightarrow> encoder_error w data)"

definition log_output :: "world \<Rightarrow> event \<Rightarrow> state \<Rightarrow> (exn + unit) \<times> state" where
  "log_output w data s =
     (case json_dumps_error w data of
        Some e \<Rightarrow> (Inl e, s)
      | None \<Rightarrow> (Inr (), s\<lparr>stdout := stdout s @ [data]\<rparr>))"

text \<open>\<open>pd.read_csv(path)\<close> and \<open>pd.read_excel(path)\<close>\<close>

definition read_table :: "string \<Rightarrow> state \<Rightarrow> (exn + dataframe) \<times> state" where
  "read_table path s =
     (case files s path of
        None \<Rightarrow> (Inl (FileNotFoundError path), s)
      | Some df \<Rightarrow> (Inr df, s))"

text \<open>\<open>df.to_csv(path, index=False)\<close>\<close>

definition to_csv :: "world \<Rightarrow> dataframe \<Rightarrow> string \<Rightarrow> state \<Rightarrow> (exn + unit) \<times> state" where
  "to_csv w df path s =
     (case to_csv_error w path of
        Some e \<Rightarrow> (Inl e, s)
      | None \<Rightarrow> (Inr (), s\<lparr>files := (files s)(path \<mapsto> df)\<rparr>))"

definition processed_path :: "string \<Rightarrow> string" where
  "processed_path project_id = ''server/uploads/processed_'' @ project_id @ ''.csv''"

section \<open>The analyze stage\<close>

text \<open>Loading by extension; any other extension raises \<open>ValueError\<close>.\<close>

definition load_dataset :: "string \<Rightarrow> state \<Rightarrow> (exn + dataframe) \<times> state" where
  "load_dataset file_path =
     (if endswith file_path ''.csv'' then read_table file_path
      else if endswith file_path ''.xlsx'' \<or> endswith file_path ''.xls'' then read_table file_path
      else lift (Inl (ValueError ''Unsupported file format'')))"

definition derive_debt_to_income ::
  "world \<Rightarrow> dataframe \<Rightarrow> dataframe \<Rightarrow> state \<Rightarrow> (exn + dataframe) \<times> state" where
  "derive_debt_to_income w df df_processed =
     (if ''debt_payments'' \<in> set (columns_of df) \<and> ''income'' \<in> set (columns_of df) then
        bind_m (lift (getitem df ''debt_payments'')) (\<lambda>a.
        bind_m (lift (getitem df ''income'')) (\<lambda>b.
        bind_m (lift (series_div a b)) (\<lambda>ratio.
        bind_m (log_output w (FeatureEngineering ''debt_to_income_ratio'' ''completed'')) (\<lambda>u.
        return_m (setitem df_processed ''debt_to_income_ratio'' ratio)))))
      else return_m df_processed)"

definition derive_credit_utilization ::
  "world \<Rightarrow> dataframe \<Rightarrow> dataframe \<Rightarrow> state \<Rightarrow> (exn + dataframe) \<times> state" where
  "derive_credit_utilization w df df_processed =
     (if ''credit_used'' \<in> set (columns_of df) \<and> ''credit_limit'' \<in> set (columns_of df) then
        bind_m (lift (getitem df ''credit_used'')) (\<lambda>a.
        bind_m (lift (getitem df ''credit_limit'')) (\<lambda>b.
        bind_m (lift (series_div a b)) (\<lambda>rate.
        bind_m (log_output w (FeatureEngineering ''credit_utilization_rate'' ''completed'')) (\<lambda>u.
        return_m (setitem df_processed ''credit_utilization_rate'' rate)))))
      else return_m df_processed)"

definition payment_delay_cols :: "dataframe \<Rightarrow> string list" where
  "payment_delay_cols df = filter (\<lambda>col. contains (lower col) ''payment_delay'') (columns_of df)"

definition derive_avg_payment_delays ::
  "world \<Rightarrow> dataframe \<Rightarrow> dataframe \<Rightarrow> state \<Rightarrow> (exn + dataframe) \<times> state" where
  "derive_avg_payment_delays w df df_processed =
     (if payment_delay_cols df \<noteq> [] then
        bind_m (lift (mean_axis1 df (payment_delay_cols df))) (\<lambda>avg.
        bind_m (log_output w (FeatureEngineering ''avg_payment_delays'' ''completed'')) (\<lambda>u.
        return_m (setitem df_processed ''avg_payment_delays'' avg)))
      else return_m df_processed)"

definition analyze_potential_targets :: "string list" where
  "analyze_potential_targets = [''default'', ''target'', ''bad_loan'', ''delinquent'', ''class'']"

text \<open>The loop over \<open>df.columns\<close> that stops at the first match.\<close>

fun analyze_target :: "string list \<Rightarrow> string option" where
  "analyze_target [] = None"
| "analyze_target (col # rest) =
     (if lower col \<in> set analyze_potential_targets then Some col else analyze_target rest)"

text \<open>The truth value of \<open>target_col\<close>: \<open>None\<close> and the empty string are false.\<close>

fun truthy :: "string option \<Rightarrow> bool" where
  "truthy None = False"
| "truthy (Some t) = (t \<noteq> [])"

definition default_rate_of :: "dataframe \<Rightarrow> string option \<Rightarrow> exn + float64" where
  "default_rate_of df target_col =
     (if truthy target_col then
        (case getitem df (the target_col) of
           Inl e \<Rightarrow> Inl e
         | Inr c \<Rightarrow>
             (case series_mean c of
                Inl e \<Rightarrow> Inl e
              | Inr m \<Rightarrow> Inr (fmul m (Fin 100))))
      else Inr (Fin 0))"

definition completeness_of :: "nat \<Rightarrow> nat \<Rightarrow> nat \<Rightarrow> float64" where
  "completeness_of missing_values total_records n_features =
     fmul (fsub (Fin 1)
             (fdiv (Fin (of_nat missing_values)) (Fin (of_nat (total_records * n_features)))))
          (Fin 100)"

definition data_quality_of :: "float64 \<Rightarrow> string" where
  "data_quality_of completeness =
     (if fgt completeness 95 then ''Excellent''
      else if fgt completeness 85 then ''Good''
      else if fgt completeness 70 then ''Fair''
      else ''Poor'')"

definition summary_of :: "dataframe \<Rightarrow> string option \<Rightarrow> float64 \<Rightarrow> dataset_summary" where
  "summary_of df target_col default_rate =
     \<lparr>totalRecords = index_len df,
      features = length (columns_of df),
      missingValues = isnull_sum_sum df,
      defaultRate = default_rate,
      dataQuality =
        data_quality_of
          (completeness_of (isnull_sum_sum df) (index_len df) (length (columns_of df))),
      summary =
        \<lparr>columns = columns_of df,
         dtypes = map (\<lambda>c. (fst c, dtype_str (snd c))) (cols df),
         numerical_cols = select_number df,
         categorical_cols = select_object df,
         target_column = target_col\<rparr>\<rparr>"

text \<open>
  The feature engineering block: the three derivations in the order of the source, each
  computed from \<open>df\<close> and stored in the copy \<open>df_processed\<close>.
\<close>

definition engineer_features ::
  "world \<Rightarrow> dataframe \<Rightarrow> state \<Rightarrow> (exn + dataframe) \<times> state" where
  "engineer_features w df =
     bind_m (derive_debt_to_income w df df) (\<lambda>p1.
     bind_m (derive_credit_utilization w df p1) (\<lambda>p2.
     derive_avg_payment_delays w df p2))"

text \<open>The body of the \<open>try\<close> block of \<open>analyze_data\<close>.\<close>

definition analyze_body ::
  "world \<Rightarrow> string \<Rightarrow> string \<Rightarrow> state \<Rightarrow> (exn + dataframe \<times> string option) \<times> state" where
  "analyze_body w file_path project_id =
     bind_m (load_dataset file_path) (\<lambda>df.
     bind_m (engineer_features w df) (\<lambda>df_processed.
     bind_m (lift (default_rate_of df (analyze_target (columns_of df)))) (\<lambda>default_rate.
     bind_m (to_csv w df_processed (processed_path project_id)) (\<lambda>u.
     bind_m (log_output w
               (DatasetSummary (summary_of df (analyze_target (columns_of df)) default_rate)))
       (\<lambda>v.
     return_m (df_processed, analyze_target (columns_of df)))))))"

text \<open>
  \<open>analyze_data\<close>: the body under \<open>except Exception\<close>, whose handler writes one
  \<open>error\<close> event and returns \<open>(None, None)\<close>.
\<close>

definition analyze_data ::
  "world \<Rightarrow> string \<Rightarrow> string \<Rightarrow> state \<Rightarrow>
   (exn + dataframe option \<times> string option) \<times> state" where
  "analyze_data w file_path project_id s =
     (case analyze_body w file_path project_id s of
        (Inr (df_processed, target_col), s') \<Rightarrow> (Inr (Some df_processed, target_col), s')
      | (Inl e, s') \<Rightarrow>
          bind_m (log_output w (Error (''Error analyzing data: '' @ str e)))
            (\<lambda>u. return_m (None, None)) s')"

section \<open>The train stage\<close>

definition train_potential_targets :: "string list" where
  "train_potential_targets = [''default'', ''target'', ''bad_loan'', ''delinquent'', ''class'']"

fun train_target :: "string list \<Rightarrow> string option" where
  "train_target [] = None"
| "train_target (col # rest) =
     (if lower col \<in> set train_potential_targets then Some col else train_target rest)"

text \<open>\<open>df.drop(columns=[name])\<close>\<close>

definition drop_column :: "dataframe \<Rightarrow> string \<Rightarrow> dataframe" where
  "drop_column df name = df\<lparr>cols := filter (\<lambda>c. fst c \<noteq> name) (cols df)\<rparr>"

text \<open>
  \<open>sklearn.preprocessing.LabelEncoder\<close>, after the library's documentation:
  \<open>fit\<close> stores in \<open>classes_\<close> the distinct labels in ascending order, and
  \<open>transform\<close> replaces a label by its position in \<open>classes_\<close>.
\<close>

fun index_of :: "'a list \<Rightarrow> 'a \<Rightarrow> nat" where
  "index_of [] v = 0"
| "index_of (c # cs) v = (if c = v then 0 else Suc (index_of cs v))"

definition LabelEncoder_fit :: "string list \<Rightarrow> string list" where
  "LabelEncoder_fit labels = sort (remdups labels)"

definition LabelEncoder_transform :: "string list \<Rightarrow> string list \<Rightarrow> nat list" where
  "LabelEncoder_transform classes labels = map (index_of classes) labels"

definition fit_transform :: "string list \<Rightarrow> nat list" where
  "fit_transform labels = LabelEncoder_transform (LabelEncoder_fit labels) labels"

text \<open>\<open>astype(str)\<close> on the cells of an object column: a missing cell reads \<open>nan\<close>.\<close>

definition astype_str :: "string option list \<Rightarrow> string list" where
  "astype_str cells = map (\<lambda>v. case v of None \<Rightarrow> ''nan'' | Some x \<Rightarrow> x) cells"

text \<open>
  One round of the loop over \<open>categorical_cols\<close>: a fresh encoder, fitted on the
  column and applied to it. The loop only meets object columns.
\<close>

definition encode_column :: "dataframe \<Rightarrow> string \<Rightarrow> dataframe" where
  "encode_column X col =
     (case getitem X col of
        Inr (ObjCol cells) \<Rightarrow>
          setitem X col (IntCol (map int (fit_transform (astype_str cells))))
      | _ \<Rightarrow> X)"

definition encode_categoricals :: "dataframe \<Rightarrow> dataframe" where
  "encode_categoricals X = foldl encode_column X (select_object X)"

definition model_names :: "string list" where
  "model_names = [''logistic_regression'', ''decision_tree'', ''random_forest'']"

definition model_path :: "string \<Rightarrow> string \<Rightarrow> string" where
  "model_path project_id model_name =
     ''server/uploads/model_'' @ project_id @ ''_'' @ model_name @ ''.joblib''"

definition feature_importance_of ::
  "dataframe \<Rightarrow> fit_result \<Rightarrow> (string list \<times> rat list) option" where
  "feature_importance_of X r =
     (case feature_importances r of
        Some imp \<Rightarrow> Some (columns_of X, imp)
      | None \<Rightarrow>
          (case coef0 r of
             Some c \<Rightarrow> Some (columns_of X, map abs c)
           | None \<Rightarrow> None))"

definition completed_of :: "dataframe \<Rightarrow> fit_result \<Rightarrow> completed_info" where
  "completed_of X r =
     \<lparr>accuracy = acc r, precision = prec r, recall = rec r, f1Score = f1 r,
      rocAuc = roc_auc r, featureImportance = feature_importance_of X r,
      hyperparameters = best_params r, trainingTime = elapsed_ms r\<rparr>"

definition raise_if :: "exn option \<Rightarrow> state \<Rightarrow> (exn + unit) \<times> state" where
  "raise_if r s = (case r of Some e \<Rightarrow> (Inl e, s) | None \<Rightarrow> (Inr (), s))"

text \<open>
  The running best: \<open>best_model\<close>, \<open>best_score\<close> and the \<open>results\<close> dictionary (in
  insertion order).
\<close>

type_synonym best = "string option \<times> rat \<times> (string \<times> fit_result) list"

text \<open>One round of the loop over \<open>models.items()\<close>.\<close>

definition train_one ::
  "world \<Rightarrow> string \<Rightarrow> dataframe \<Rightarrow> column \<Rightarrow> string \<Rightarrow> best \<Rightarrow>
   state \<Rightarrow> (exn + best) \<times> state" where
  "train_one w project_id X y model_name b =
     (case b of (best_model, best_score, results) \<Rightarrow>
        bind_m (log_output w (ModelUpdate model_name (Training 0))) (\<lambda>u.
        bind_m (lift (fit_evaluate w model_name X y)) (\<lambda>r.
        bind_m (raise_if (joblib_dump_error w (model_path project_id model_name))) (\<lambda>v.
        bind_m (log_output w (ModelUpdate model_name (Completed (completed_of X r)))) (\<lambda>z.
        return_m
          (if best_score < roc_auc r
           then (Some model_name, roc_auc r, results @ [(model_name, r)])
           else (best_model, best_score, results @ [(model_name, r)])))))))"

fun train_loop ::
  "world \<Rightarrow> string \<Rightarrow> dataframe \<Rightarrow> column \<Rightarrow> string list \<Rightarrow> best \<Rightarrow>
   state \<Rightarrow> (exn + best) \<times> state" where
  "train_loop w project_id X y [] b s = (Inr b, s)"
| "train_loop w project_id X y (model_name # rest) b s =
     (case train_one w project_id X y model_name b s of
        (Inl e, s') \<Rightarrow> (Inl e, s')
      | (Inr b', s') \<Rightarrow> train_loop w project_id X y rest b' s')"

text \<open>The loop over \<open>results.items()\<close> that builds \<open>roc_data\<close>.\<close>

fun roc_loop ::
  "world \<Rightarrow> (string \<times> fit_result) list \<Rightarrow> exn + (string \<times> roc_entry) list" where
  "roc_loop w [] = Inr []"
| "roc_loop w ((model_name, r) # rest) =
     (case roc_curve w (y_test r) (y_pred_proba r) of
        Inl e \<Rightarrow> Inl e
      | Inr (fs, ts) \<Rightarrow>
          (case roc_loop w rest of
             Inl e \<Rightarrow> Inl e
           | Inr roc_data \<Rightarrow> Inr ((model_name, \<lparr>fpr = fs, tpr = ts, auc = roc_auc r\<rparr>) # roc_data)))"

text \<open>From the split of features and label to the last event.\<close>

definition train_with_target ::
  "world \<Rightarrow> string \<Rightarrow> dataframe \<Rightarrow> string \<Rightarrow> state \<Rightarrow> (exn + unit) \<times> state" where
  "train_with_target w project_id df target_col =
     bind_m (lift (getitem df target_col)) (\<lambda>y.
     bind_m (raise_if (split_scale_error w (encode_categoricals (drop_column df target_col)) y))
       (\<lambda>u.
     bind_m (train_loop w project_id (encode_categoricals (drop_column df target_col)) y
               model_names (None, 0, []))
       (\<lambda>b. case b of (best_model, best_score, results) \<Rightarrow>
     bind_m (lift (roc_loop w results)) (\<lambda>roc_data.
     bind_m (log_output w (RocData roc_data)) (\<lambda>v.
     log_output w (BestModel best_model best_score))))))"

text \<open>
  The processed file is read when it exists; otherwise the analyze stage runs, and
  its \<open>None\<close> ends the train stage.
\<close>

definition obtain_dataset ::
  "world \<Rightarrow> string \<Rightarrow> string \<Rightarrow> state \<Rightarrow> (exn + dataframe option) \<times> state" where
  "obtain_dataset w file_path project_id s =
     (if files s (processed_path project_id) \<noteq> None
      then bind_m (read_table (processed_path project_id)) (\<lambda>df. return_m (Some df)) s
      else bind_m (analyze_data w file_path project_id) (\<lambda>r. return_m (fst r)) s)"

text \<open>What the stage does with the frame it has: the target check, then the training.\<close>

definition train_frame :: "world \<Rightarrow> string \<Rightarrow> dataframe \<Rightarrow> state \<Rightarrow> (exn + unit) \<times> state" where
  "train_frame w project_id df =
     (if \<not> truthy (train_target (columns_of df))
      then log_output w (Error ''No target column found for training'')
      else train_with_target w project_id df (the (train_target (columns_of df))))"

text \<open>The body of the \<open>try\<close> block of \<open>train_models\<close>.\<close>

definition train_body :: "world \<Rightarrow> string \<Rightarrow> string \<Rightarrow> state \<Rightarrow> (exn + unit) \<times> state" where
  "train_body w file_path project_id =
     bind_m (obtain_dataset w file_path project_id) (\<lambda>loaded.
       case loaded of
         None \<Rightarrow> return_m ()
       | Some df \<Rightarrow> train_frame w project_id df)"

definition train_models :: "world \<Rightarrow> string \<Rightarrow> string \<Rightarrow> state \<Rightarrow> (exn + unit) \<times> state" where
  "train_models w file_path project_id s =
     (case train_body w file_path project_id s of
        (Inr u, s') \<Rightarrow> (Inr (), s')
      | (Inl e, s') \<Rightarrow> log_output w (Error (''Error training models: '' @ str e)) s')"

section \<open>Vocabulary of the properties\<close>

text \<open>The three \<open>feature_engineering\<close> events, in the order of the source.\<close>

definition feature_events :: "event list" where
  "feature_events =
     [FeatureEngineering ''debt_to_income_ratio'' ''completed'',
      FeatureEngineering ''credit_utilization_rate'' ''completed'',
      FeatureEngineering ''avg_payment_delays'' ''completed'']"

fun is_feature_engineering :: "event \<Rightarrow> bool" where
  "is_feature_engineering (FeatureEngineering feature st) = True"
| "is_feature_engineering e = False"

fun is_error :: "event \<Rightarrow> bool" where
  "is_error (Error message) = True"
| "is_error e = False"

fun is_model_update :: "event \<Rightarrow> bool" where
  "is_model_update (ModelUpdate model_name u) = True"
| "is_model_update e = False"

text \<open>The \<open>type\<close> of an event, with the \<open>status\<close> for a \<open>model_update\<close>.\<close>

fun event_kind :: "event \<Rightarrow> string" where
  "event_kind (FeatureEngineering feature st) = ''feature_engineering''"
| "event_kind (DatasetSummary d) = ''dataset_summary''"
| "event_kind (ModelUpdate model_name u) = ''model_update:'' @ status u"
| "event_kind (RocData roc_data) = ''roc_data''"
| "event_kind (BestModel best_model best_score) = ''best_model''"
| "event_kind (Error message) = ''error''"

section \<open>Concrete inputs\<close>

text \<open>
  What a tuned candidate yields on two held-out rows, a negative and a positive one, of
  which it gives the positive class the probabilities \<open>proba\<close>: with the score \<open>a\<close>
  for the metrics, the coefficients of a logistic regression and the importances of a
  tree or a forest.
\<close>

definition candidate_result :: "rat \<Rightarrow> rat list \<Rightarrow> string \<Rightarrow> dataframe \<Rightarrow> fit_result" where
  "candidate_result a proba name X =
     \<lparr>acc = a, prec = a, rec = a, f1 = a, roc_auc = a,
      y_pred_proba = proba, y_test = [Fin 0, Fin 1],
      feature_importances =
        (if name = ''logistic_regression'' then None
         else Some (map (\<lambda>c. 1 / of_nat (length (columns_of X))) (columns_of X))),
      coef0 =
        (if name = ''logistic_regression'' then Some (map (\<lambda>c. 1) (columns_of X)) else None),
      best_params = [], elapsed_ms = 5\<rparr>"

text \<open>
  The world of a run in which no library call fails and every candidate ranks the two
  held-out rows in the right order. Its JSON encoder is the standard one: it has no
  encoding for the NumPy integer that \<open>df.isnull().sum().sum()\<close> returns, so it
  rejects every summary payload, whose \<open>missingValues\<close> is that integer, and it
  accepts the other payloads.
\<close>

definition ok_world :: world where
  "ok_world =
     \<lparr>encoder_error =
        (\<lambda>e. case e of
                DatasetSummary d \<Rightarrow>
                  Some (TypeError ''Object of type int64 is not JSON serializable'')
              | _ \<Rightarrow> None),
      to_csv_error = (\<lambda>p. None),
      split_scale_error = (\<lambda>X y. None),
      fit_evaluate = (\<lambda>name X y. Inr (candidate_result 1 [1 / 4, 3 / 4] name X)),
      joblib_dump_error = (\<lambda>p. None),
      roc_curve = (\<lambda>yt yp. Inr ([0, 0, 1], [0, 1, 1]))\<rparr>"

definition small_df :: dataframe where
  "small_df =
     \<lparr>index_len = 2,
      cols =
        [(''debt_payments'', IntCol [1, 2]), (''income'', IntCol [4, 8]),
         (''payment_delay_1'', FloatCol [Fin 0, Fin 2]), (''default'', IntCol [0, 1])]\<rparr>"

definition small_state :: state where
  "small_state = \<lparr>stdout = [], files = [''data.csv'' \<mapsto> small_df]\<rparr>"

text \<open>A frame of twenty cells with one missing cell: its completeness is exactly 95.\<close>

definition boundary_df :: dataframe where
  "boundary_df =
     \<lparr>index_len = 10,
      cols =
        [(''income'', FloatCol [NaN, Fin 1, Fin 2, Fin 3, Fin 4, Fin 5, Fin 6, Fin 7, Fin 8, Fin 9]),
         (''default'', IntCol [0, 1, 0, 1, 0, 1, 0, 1, 0, 1])]\<rparr>"

text \<open>
  The encoding as the specification words it: codes in the order in which the categories
  are first observed in the column.
\<close>

definition spec_first_observed_codes :: "string list \<Rightarrow> nat list" where
  "spec_first_observed_codes labels = map (index_of (rev (remdups (rev labels)))) labels"

text \<open>
  The encoding by rank: the code of a label is the number of distinct labels of the
  column that are smaller in the order of strings.
\<close>

definition rank_codes :: "string list \<Rightarrow> nat list" where
  "rank_codes labels = map (\<lambda>v. card {u \<in> set labels. u < v}) labels"

fun encoded :: "column \<Rightarrow> column" where
  "encoded (ObjCol cells) = IntCol (map int (rank_codes (astype_str cells)))"
| "encoded c = c"

definition grades_frame :: dataframe where
  "grades_frame =
     \<lparr>index_len = 4,
      cols =
        [(''income'', IntCol [10, 20, 30, 40]),
         (''grade'', ObjCol [Some ''medium'', Some ''high'', Some ''low'', Some ''medium'']),
         (''region'', ObjCol [Some ''north'', None, Some ''east'', Some ''east''])]\<rparr>"

text \<open>
  A one-row frame that already has a column \<open>avg_payment_delays\<close>, and the frames the
  analyze stage stores for it when run once and when run again on its own output.
\<close>

definition delays_df :: dataframe where
  "delays_df =
     \<lparr>index_len = 1,
      cols = [(''payment_delay_1'', FloatCol [Fin 0]), (''avg_payment_delays'', FloatCol [Fin 3])]\<rparr>"

definition delays_once_df :: dataframe where
  "delays_once_df =
     \<lparr>index_len = 1,
      cols =
        [(''payment_delay_1'', FloatCol [Fin 0]), (''avg_payment_delays'', FloatCol [Fin (3 / 2)])]\<rparr>"

definition delays_twice_df :: dataframe where
  "delays_twice_df =
     \<lparr>index_len = 1,
      cols =
        [(''payment_delay_1'', FloatCol [Fin 0]), (''avg_payment_delays'', FloatCol [Fin (3 / 4)])]\<rparr>"

definition delays_state :: state where
  "delays_state = \<lparr>stdout = [], files = [''raw.csv'' \<mapsto> delays_df]\<rparr>"

text \<open>
  A world whose grid search raises, and a state in which the processed file of project
  \<open>p1\<close> already exists.
\<close>

definition raising_world :: world where
  "raising_world =
     ok_world\<lparr>fit_evaluate := (\<lambda>name X y. Inl (LibraryError ''fit failed''))\<rparr>"

definition processed_state :: state where
  "processed_state = \<lparr>stdout = [], files = [processed_path ''p1'' \<mapsto> small_df]\<rparr>"

text \<open>
  A frame without a target column whose \<open>income\<close> column holds text, so that the
  division of the first derivation raises.
\<close>

definition text_income_df :: dataframe where
  "text_income_df =
     \<lparr>index_len = 2,
      cols =
        [(''debt_payments'', IntCol [1, 2]), (''income'', ObjCol [Some ''high'', Some ''low''])]\<rparr>"

definition text_income_state :: state where
  "text_income_state = \<lparr>stdout = [], files = [''raw.csv'' \<mapsto> text_income_df]\<rparr>"

text \<open>
  Every column label that stands in a field of a summary payload: in \<open>columns\<close>, as a
  key of \<open>dtypes\<close>, in \<open>numerical_cols\<close>, in \<open>categorical_cols\<close> or as
  \<open>target_column\<close>.
\<close>

definition summary_names :: "dataset_summary \<Rightarrow> string list" where
  "summary_names d =
     columns (summary d) @ map fst (dtypes (summary d)) @ numerical_cols (summary d) @
     categorical_cols (summary d) @
     (case target_column (summary d) of None \<Rightarrow> [] | Some t \<Rightarrow> [t])"

text \<open>
  The files after the analyze stage has run on \<open>delays_state\<close>, with a fresh output:
  the processed file of project \<open>p\<close> exists.
\<close>

definition delays_processed_state :: state where
  "delays_processed_state =
     \<lparr>stdout = [],
      files = [''raw.csv'' \<mapsto> delays_df, processed_path ''p'' \<mapsto> delays_once_df]\<rparr>"

text \<open>The frame that the analyze stage stores for \<open>small_df\<close>.\<close>

definition small_processed_df :: dataframe where
  "small_processed_df =
     \<lparr>index_len = 2,
      cols =
        [(''debt_payments'', IntCol [1, 2]), (''income'', IntCol [4, 8]),
         (''payment_delay_1'', FloatCol [Fin 0, Fin 2]), (''default'', IntCol [0, 1]),
         (''debt_to_income_ratio'', FloatCol [Fin (1 / 4), Fin (1 / 4)]),
         (''avg_payment_delays'', FloatCol [Fin 0, Fin 2])]\<rparr>"

text \<open>
  A world in which every candidate is tuned and evaluated without an exception and has
  the ROC-AUC 0 on the held-out rows: each ranks the positive row below the negative
  one. And a frame of ten rows, half of them positive, as the processed file of project
  \<open>p1\<close>.
\<close>

definition zero_auc_world :: world where
  "zero_auc_world =
     ok_world
       \<lparr>fit_evaluate := (\<lambda>name X y. Inr (candidate_result 0 [3 / 4, 1 / 4] name X)),
        roc_curve := (\<lambda>yt yp. Inr ([0, 1, 1], [0, 0, 1]))\<rparr>"

definition ten_rows_df :: dataframe where
  "ten_rows_df =
     \<lparr>index_len = 10,
      cols =
        [(''income'', IntCol [10, 20, 30, 40, 50, 60, 70, 80, 90, 100]),
         (''default'', IntCol [0, 1, 0, 1, 0, 1, 0, 1, 0, 1])]\<rparr>"

definition ten_rows_state :: state where
  "ten_rows_state = \<lparr>stdout = [], files = [processed_path ''p1'' \<mapsto> ten_rows_df]\<rparr>"




section \<open>Target inference\<close>

lemma analyze_target_eq_train_target: "analyze_target cs = train_target cs"
  by (induction cs) (simp_all add: analyze_potential_targets_def train_potential_targets_def)

lemma train_target_None_iff:
  "train_target cs = None \<longleftrightarrow> (\<forall>c \<in> set cs. lower c \<notin> set train_potential_targets)"
  by (induction cs) simp_all

lemma train_target_Some_split:
  "train_target cs = Some t \<Longrightarrow>
   \<exists>pre post. cs = pre @ t # post \<and> lower t \<in> set train_potential_targets \<and>
     (\<forall>c \<in> set pre. lower c \<notin> set train_potential_targets)"
proof (induction cs)
  case Nil
  then show ?case by simp
next
  case (Cons c cs)
  show ?case
  proof (cases "lower c \<in> set train_potential_targets")
    case True
    with Cons.prems have "t = c" by simp
    with True have "c # cs = [] @ t # cs \<and> lower t \<in> set train_potential_targets \<and>
      (\<forall>c \<in> set []. lower c \<notin> set train_potential_targets)" by simp
    then show ?thesis by blast
  next
    case False
    with Cons.prems have "train_target cs = Some t" by simp
    from Cons.IH[OF this] obtain pre post where
      p: "cs = pre @ t # post" "lower t \<in> set train_potential_targets"
         "\<forall>c \<in> set pre. lower c \<notin> set train_potential_targets" by blast
    with False have "c # cs = (c # pre) @ t # post \<and> lower t \<in> set train_potential_targets \<and>
      (\<forall>x \<in> set (c # pre). lower x \<notin> set train_potential_targets)" by simp
    then show ?thesis by blast
  qed
qed

text \<open>
  C5. On every list of column labels the loop of the analyze stage and the loop of the
  train stage return the same column. When they return a column, it stands in the list,
  its lowercased label is one of \<open>default\<close>, \<open>target\<close>, \<open>bad_loan\<close>,
  \<open>delinquent\<close>, \<open>class\<close>, and no column to its left has such a label; when they
  return none, no column of the list has such a label.
\<close>

theorem target_rule:
  "analyze_target cs = train_target cs \<and>
   (case train_target cs of
      None \<Rightarrow>
        \<forall>c \<in> set cs. lower c \<notin> {''default'', ''target'', ''bad_loan'', ''delinquent'', ''class''}
    | Some t \<Rightarrow>
        \<exists>pre post. cs = pre @ t # post \<and>
          lower t \<in> {''default'', ''target'', ''bad_loan'', ''delinquent'', ''class''} \<and>
          (\<forall>c \<in> set pre.
             lower c \<notin> {''default'', ''target'', ''bad_loan'', ''delinquent'', ''class''}))"
proof (cases "train_target cs")
  case None
  then show ?thesis
    using train_target_None_iff[of cs] analyze_target_eq_train_target[of cs]
    by (simp add: train_potential_targets_def)
next
  case (Some t)
  then show ?thesis
    using train_target_Some_split[of cs t] analyze_target_eq_train_target[of cs]
    by (simp add: train_potential_targets_def)
qed

theorem target_rule_witness:
  "analyze_target [''ID'', ''Target'', ''default''] = Some ''Target'' \<and>
   train_target [''ID'', ''Target'', ''default''] = Some ''Target'' \<and>
   lower ''Target'' = ''target''"
  using target_rule[of "[''ID'', ''Target'', ''default'']"]
  by (simp add: lower_def lower_char_def analyze_potential_targets_def train_potential_targets_def)

section \<open>What a statement writes\<close>

lemma log_output_literal [simp]:
  "log_output w (FeatureEngineering feature st) s =
     (Inr (), s\<lparr>stdout := stdout s @ [FeatureEngineering feature st]\<rparr>)"
  "log_output w (Error message) s = (Inr (), s\<lparr>stdout := stdout s @ [Error message]\<rparr>)"
  by (simp_all add: log_output_def json_dumps_error_def)

lemma log_output_shape:
  "log_output w ev s = (r, s') \<Longrightarrow>
     files s' = files s \<and>
     ((\<exists>e. r = Inl e \<and> stdout s' = stdout s) \<or> (r = Inr () \<and> stdout s' = stdout s @ [ev]))"
  by (auto simp: log_output_def split: option.splits)

lemma load_dataset_shape:
  "load_dataset fp s = (r, s') \<Longrightarrow> s' = s \<and> (\<forall>df. r = Inr df \<longrightarrow> files s fp = Some df)"
  by (auto simp: load_dataset_def read_table_def lift_def split: if_splits option.splits)

lemma to_csv_shape:
  "to_csv w df path s = (r, s') \<Longrightarrow>
     stdout s' = stdout s \<and>
     ((\<exists>e. r = Inl e \<and> files s' = files s) \<or> (r = Inr () \<and> files s' = (files s)(path \<mapsto> df)))"
  by (auto simp: to_csv_def split: option.splits)

lemma derive_debt_to_income_shape:
  "derive_debt_to_income w df p s = (r, s') \<Longrightarrow>
     files s' = files s \<and>
     ((stdout s' = stdout s @ [FeatureEngineering ''debt_to_income_ratio'' ''completed''] \<and>
       (\<exists>p'. r = Inr p'))
      \<or> stdout s' = stdout s)"
  by (auto simp: derive_debt_to_income_def bind_m_def lift_def return_m_def
      split: if_splits sum.splits prod.splits)

lemma derive_credit_utilization_shape:
  "derive_credit_utilization w df p s = (r, s') \<Longrightarrow>
     files s' = files s \<and>
     ((stdout s' = stdout s @ [FeatureEngineering ''credit_utilization_rate'' ''completed''] \<and>
       (\<exists>p'. r = Inr p'))
      \<or> stdout s' = stdout s)"
  by (auto simp: derive_credit_utilization_def bind_m_def lift_def return_m_def
      split: if_splits sum.splits prod.splits)

lemma derive_avg_payment_delays_shape:
  "derive_avg_payment_delays w df p s = (r, s') \<Longrightarrow>
     files s' = files s \<and>
     ((stdout s' = stdout s @ [FeatureEngineering ''avg_payment_delays'' ''completed''] \<and>
       (\<exists>p'. r = Inr p'))
      \<or> stdout s' = stdout s)"
  by (auto simp: derive_avg_payment_delays_def bind_m_def lift_def return_m_def
      split: if_splits sum.splits prod.splits)

lemma engineer_features_shape:
  assumes "engineer_features w df s = (r, s')"
  shows "files s' = files s \<and>
     (\<exists>fes. stdout s' = stdout s @ fes \<and> fes \<in> set (subseqs feature_events))"
proof -
  obtain r1 s1 where d1: "derive_debt_to_income w df df s = (r1, s1)" by fastforce
  note h1 = derive_debt_to_income_shape[OF d1]
  show ?thesis
  proof (cases r1)
    case (Inl e)
    with assms d1 have "s' = s1" by (simp add: engineer_features_def bind_m_def)
    with h1 Inl show ?thesis by (auto simp: feature_events_def)
  next
    case p1: (Inr p1)
    obtain r2 s2 where d2: "derive_credit_utilization w df p1 s1 = (r2, s2)" by fastforce
    note h2 = derive_credit_utilization_shape[OF d2]
    show ?thesis
    proof (cases r2)
      case (Inl e)
      with assms d1 d2 p1 have "s' = s2" by (simp add: engineer_features_def bind_m_def)
      with h1 h2 Inl show ?thesis by (auto simp: feature_events_def)
    next
      case p2: (Inr p2)
      with assms d1 d2 p1 have d3: "derive_avg_payment_delays w df p2 s2 = (r, s')"
        by (simp add: engineer_features_def bind_m_def)
      note h3 = derive_avg_payment_delays_shape[OF d3]
      from h1 h2 h3 show ?thesis by (auto simp: feature_events_def)
    qed
  qed
qed

text \<open>
  The body of the analyze stage either raises, having written some of the feature events
  and nothing else, or returns, having written them and then the summary of the raw
  frame; the processed file is written just before the summary.
\<close>

lemma analyze_body_shape:
  assumes "analyze_body w fp pid s = (r, s')"
  shows "\<exists>fes. fes \<in> set (subseqs feature_events) \<and>
     ((\<exists>e. r = Inl e \<and> stdout s' = stdout s @ fes \<and>
            (files s' = files s \<or> (\<exists>dfp. files s' = (files s)(processed_path pid \<mapsto> dfp)))) \<or>
      (\<exists>df dfp rate sm.
          files s fp = Some df \<and>
          engineer_features w df s = (Inr dfp, sm) \<and>
          default_rate_of df (analyze_target (columns_of df)) = Inr rate \<and>
          r = Inr (dfp, analyze_target (columns_of df)) \<and>
          stdout s' = stdout s @ fes @
             [DatasetSummary (summary_of df (analyze_target (columns_of df)) rate)] \<and>
          files s' = (files s)(processed_path pid \<mapsto> dfp)))"
proof -
  obtain r0 s0 where l: "load_dataset fp s = (r0, s0)" by fastforce
  note h0 = load_dataset_shape[OF l]
  then have s0: "s0 = s" by simp
  show ?thesis
  proof (cases r0)
    case (Inl e)
    with assms l s0 have "r = Inl e" "s' = s" by (simp_all add: analyze_body_def bind_m_def)
    then show ?thesis by (intro exI[of _ "[]"]) (simp add: feature_events_def)
  next
    case df: (Inr df)
    with h0 have fdf: "files s fp = Some df" by simp
    obtain r1 s1 where e: "engineer_features w df s = (r1, s1)" by fastforce
    from engineer_features_shape[OF e] obtain fes where
      f1: "files s1 = files s" and o1: "stdout s1 = stdout s @ fes" and
      fes: "fes \<in> set (subseqs feature_events)" by blast
    show ?thesis
    proof (cases r1)
      case (Inl e1)
      with assms l s0 df e have "r = Inl e1" "s' = s1"
        by (simp_all add: analyze_body_def bind_m_def)
      with f1 o1 fes show ?thesis by blast
    next
      case dfp: (Inr dfp)
      show ?thesis
      proof (cases "default_rate_of df (analyze_target (columns_of df))")
        case (Inl e2)
        with assms l s0 df e dfp have "r = Inl e2" "s' = s1"
          by (simp_all add: analyze_body_def bind_m_def lift_def)
        with f1 o1 fes show ?thesis by blast
      next
        case rate: (Inr rate)
        obtain r3 s3 where c: "to_csv w dfp (processed_path pid) s1 = (r3, s3)" by fastforce
        note h3 = to_csv_shape[OF c]
        show ?thesis
        proof (cases r3)
          case (Inl e3)
          with assms l s0 df e dfp rate c have "r = Inl e3" "s' = s3"
            by (simp_all add: analyze_body_def bind_m_def lift_def)
          with h3 Inl f1 o1 fes show ?thesis by auto
        next
          case (Inr u)
          with h3 f1 o1 have f3: "files s3 = (files s)(processed_path pid \<mapsto> dfp)"
            and o3: "stdout s3 = stdout s @ fes" by auto
          obtain r4 s4 where g: "log_output w (DatasetSummary
              (summary_of df (analyze_target (columns_of df)) rate)) s3 = (r4, s4)" by fastforce
          note h4 = log_output_shape[OF g]
          show ?thesis
          proof (cases r4)
            case (Inl e4)
            with assms l s0 df e dfp rate c Inr g have "r = Inl e4" "s' = s4"
              by (simp_all add: analyze_body_def bind_m_def lift_def)
            with h4 Inl f3 o3 fes show ?thesis by auto
          next
            case u4: (Inr u4)
            with assms l s0 df e dfp rate c Inr g
            have "r = Inr (dfp, analyze_target (columns_of df))" "s' = s4"
              by (simp_all add: analyze_body_def bind_m_def lift_def return_m_def)
            with h4 u4 f3 o3 fes fdf e dfp rate show ?thesis by auto
          qed
        qed
      qed
    qed
  qed
qed

lemma analyze_data_raised:
  "analyze_body w fp pid s = (Inl e, sb) \<Longrightarrow>
   analyze_data w fp pid s =
     (Inr (None, None), sb\<lparr>stdout := stdout sb @ [Error (''Error analyzing data: '' @ str e)]\<rparr>)"
  by (simp add: analyze_data_def bind_m_def return_m_def)

lemma analyze_data_returned:
  "analyze_body w fp pid s = (Inr (dfp, t), sb) \<Longrightarrow>
   analyze_data w fp pid s = (Inr (Some dfp, t), sb)"
  by (simp add: analyze_data_def)

text \<open>
  The analyze stage writes some of the feature events, in their order, and then exactly
  one more event: the summary when the body returned, an error when it raised.
\<close>

lemma analyze_data_shape:
  "\<exists>fes last res s'.
     analyze_data w fp pid s = (Inr res, s') \<and>
     fes \<in> set (subseqs feature_events) \<and>
     stdout s' = stdout s @ fes @ [last] \<and>
     ((\<exists>e. last = Error (''Error analyzing data: '' @ str e) \<and> res = (None, None) \<and>
           (files s' = files s \<or> (\<exists>dfp. files s' = (files s)(processed_path pid \<mapsto> dfp)))) \<or>
      (\<exists>df dfp rate sm.
          files s fp = Some df \<and>
          engineer_features w df s = (Inr dfp, sm) \<and>
          res = (Some dfp, analyze_target (columns_of df)) \<and>
          last = DatasetSummary (summary_of df (analyze_target (columns_of df)) rate) \<and>
          files s' = (files s)(processed_path pid \<mapsto> dfp)))"
proof -
  obtain r sb where b: "analyze_body w fp pid s = (r, sb)" by fastforce
  from analyze_body_shape[OF b] obtain fes where fes: "fes \<in> set (subseqs feature_events)"
    and alt: "(\<exists>e. r = Inl e \<and> stdout sb = stdout s @ fes \<and>
            (files sb = files s \<or> (\<exists>dfp. files sb = (files s)(processed_path pid \<mapsto> dfp)))) \<or>
      (\<exists>df dfp rate sm.
          files s fp = Some df \<and>
          engineer_features w df s = (Inr dfp, sm) \<and>
          default_rate_of df (analyze_target (columns_of df)) = Inr rate \<and>
          r = Inr (dfp, analyze_target (columns_of df)) \<and>
          stdout sb = stdout s @ fes @
             [DatasetSummary (summary_of df (analyze_target (columns_of df)) rate)] \<and>
          files sb = (files s)(processed_path pid \<mapsto> dfp))" by blast
  from alt show ?thesis
  proof
    assume "\<exists>e. r = Inl e \<and> stdout sb = stdout s @ fes \<and>
            (files sb = files s \<or> (\<exists>dfp. files sb = (files s)(processed_path pid \<mapsto> dfp)))"
    then obtain e where r: "r = Inl e" and o: "stdout sb = stdout s @ fes"
      and f: "files sb = files s \<or> (\<exists>dfp. files sb = (files s)(processed_path pid \<mapsto> dfp))"
      by blast
    from b r have "analyze_data w fp pid s =
      (Inr (None, None), sb\<lparr>stdout := stdout sb @ [Error (''Error analyzing data: '' @ str e)]\<rparr>)"
      by (simp add: analyze_data_raised)
    with fes o f show ?thesis
      by (intro exI[of _ fes] exI[of _ "Error (''Error analyzing data: '' @ str e)"]
          exI[of _ "(None, None)"]
          exI[of _ "sb\<lparr>stdout := stdout sb @ [Error (''Error analyzing data: '' @ str e)]\<rparr>"])
        auto
  next
    assume "\<exists>df dfp rate sm.
          files s fp = Some df \<and>
          engineer_features w df s = (Inr dfp, sm) \<and>
          default_rate_of df (analyze_target (columns_of df)) = Inr rate \<and>
          r = Inr (dfp, analyze_target (columns_of df)) \<and>
          stdout sb = stdout s @ fes @
             [DatasetSummary (summary_of df (analyze_target (columns_of df)) rate)] \<and>
          files sb = (files s)(processed_path pid \<mapsto> dfp)"
    then obtain df dfp rate sm where
      d: "files s fp = Some df" "engineer_features w df s = (Inr dfp, sm)"
         "r = Inr (dfp, analyze_target (columns_of df))"
         "stdout sb = stdout s @ fes @
             [DatasetSummary (summary_of df (analyze_target (columns_of df)) rate)]"
         "files sb = (files s)(processed_path pid \<mapsto> dfp)" by blast
    from b d(3) have "analyze_data w fp pid s = (Inr (Some dfp, analyze_target (columns_of df)), sb)"
      by (simp add: analyze_data_returned)
    with fes d show ?thesis
      by (intro exI[of _ fes]
          exI[of _ "DatasetSummary (summary_of df (analyze_target (columns_of df)) rate)"]
          exI[of _ "(Some dfp, analyze_target (columns_of df))"] exI[of _ sb])
        blast
  qed
qed

lemmas model_defs =
  analyze_data_def analyze_body_def engineer_features_def derive_debt_to_income_def
  derive_credit_utilization_def derive_avg_payment_delays_def payment_delay_cols_def
  load_dataset_def read_table_def to_csv_def log_output_def json_dumps_error_def
  bind_m_def return_m_def lift_def endswith_def columns_of_def getitem_def setitem_def
  series_div_def mean_axis1_def nanmean_def cell_def default_rate_of_def series_mean_def
  summary_of_def completeness_of_def data_quality_of_def isnull_sum_sum_def
  select_number_def select_object_def lower_def lower_char_def processed_path_def
  analyze_potential_targets_def fsub_def inf_of_sign_def

text \<open>
  The run of the analyze stage on the small frame, in the world where no library call
  fails: the two feature events, and then the error of the JSON encoder on the summary.
\<close>

lemma small_run:
  "analyze_data ok_world ''data.csv'' ''p1'' small_state =
     (Inr (None, None),
      \<lparr>stdout =
         [FeatureEngineering ''debt_to_income_ratio'' ''completed'',
          FeatureEngineering ''avg_payment_delays'' ''completed'',
          Error ''Error analyzing data: Object of type int64 is not JSON serializable''],
       files = [''data.csv'' \<mapsto> small_df, processed_path ''p1'' \<mapsto> small_processed_df]\<rparr>)"
  by (simp add: model_defs ok_world_def small_df_def small_state_def small_processed_df_def
      numeral_2_eq_2 Let_def)

lemma small_run_stdout:
  "stdout (snd (analyze_data ok_world ''data.csv'' ''p1'' small_state)) =
     [FeatureEngineering ''debt_to_income_ratio'' ''completed'',
      FeatureEngineering ''avg_payment_delays'' ''completed'',
      Error ''Error analyzing data: Object of type int64 is not JSON serializable'']"
  by (simp add: small_run)

section \<open>Order of the events of the analyze stage\<close>

text \<open>
  C10. In every run of the analyze stage, what the run writes is a selection of the
  three feature events in the order \<open>debt_to_income_ratio\<close>,
  \<open>credit_utilization_rate\<close>, \<open>avg_payment_delays\<close> (each at most once), followed by
  exactly one event that is not a feature event: the summary or an error. So two feature
  events always stand in that relative order, and every feature event stands before the
  summary.
\<close>

theorem feature_events_then_summary:
  "\<exists>fes last.
     stdout (snd (analyze_data w fp pid s)) = stdout s @ fes @ [last] \<and>
     fes \<in> set (subseqs feature_events) \<and>
     \<not> is_feature_engineering last \<and>
     ((\<exists>d. last = DatasetSummary d) \<or> (\<exists>m. last = Error m))"
proof -
  from analyze_data_shape[of w fp pid s] obtain fes last res s' where
    a: "analyze_data w fp pid s = (Inr res, s')" "fes \<in> set (subseqs feature_events)"
       "stdout s' = stdout s @ fes @ [last]"
       "(\<exists>d. last = DatasetSummary d) \<or> (\<exists>m. last = Error m)" by blast
  then have "\<not> is_feature_engineering last" by auto
  with a show ?thesis by (intro exI[of _ fes] exI[of _ last]) simp
qed

theorem feature_events_then_summary_witness:
  "stdout (snd (analyze_data ok_world ''data.csv'' ''p1'' small_state)) =
     stdout small_state @
     [FeatureEngineering ''debt_to_income_ratio'' ''completed'',
      FeatureEngineering ''avg_payment_delays'' ''completed''] @
     [last (stdout (snd (analyze_data ok_world ''data.csv'' ''p1'' small_state)))] \<and>
   [FeatureEngineering ''debt_to_income_ratio'' ''completed'',
    FeatureEngineering ''avg_payment_delays'' ''completed''] \<in> set (subseqs feature_events) \<and>
   event_kind (last (stdout (snd (analyze_data ok_world ''data.csv'' ''p1'' small_state)))) =
     ''error''"
proof -
  have s: "stdout small_state = []" by (simp add: small_state_def)
  show ?thesis
    using feature_events_then_summary[of ok_world "''data.csv''" "''p1''" small_state]
    by (simp add: small_run_stdout s feature_events_def)
qed

section \<open>Completeness and the quality label\<close>

lemma completeness_of_cells:
  "0 < records * n \<Longrightarrow>
   completeness_of m records n = Fin ((1 - of_nat m / of_nat (records * n)) * 100)"
  by (simp add: completeness_of_def fsub_def)

lemma completeness_of_no_cells:
  "records * n = 0 \<Longrightarrow> data_quality_of (completeness_of m records n) = ''Poor''"
  by (cases "m = 0")
    (simp_all add: completeness_of_def fsub_def inf_of_sign_def data_quality_of_def)

text \<open>
  C4. The quality label of the summary is computed from
  \<open>q = (1 - missing_values / (total_records * features)) * 100\<close> with exclusive lower
  bounds: \<open>Excellent\<close> when \<open>q > 95\<close>, else \<open>Good\<close> when \<open>q > 85\<close>, else
  \<open>Fair\<close> when \<open>q > 70\<close>, else \<open>Poor\<close>; a frame with no cell, whose quotient is
  not a number, is \<open>Poor\<close>. A completeness of exactly 95 is \<open>Good\<close>.
\<close>

theorem quality_label_bounds:
  "dataQuality (summary_of df target rate) =
     (let cells = index_len df * length (columns_of df);
          q = (1 - of_nat (isnull_sum_sum df) / of_nat cells) * (100 :: rat)
      in if cells = 0 then ''Poor''
         else if 95 < q then ''Excellent''
         else if 85 < q then ''Good''
         else if 70 < q then ''Fair''
         else ''Poor'') \<and>
   data_quality_of (Fin 95) = ''Good''"
proof (cases "index_len df * length (columns_of df) = 0")
  case True
  then show ?thesis
    using completeness_of_no_cells[of "index_len df" "length (columns_of df)" "isnull_sum_sum df"]
    by (simp add: summary_of_def Let_def data_quality_of_def)
next
  case False
  then have "0 < index_len df * length (columns_of df)" by simp
  from completeness_of_cells[OF this, of "isnull_sum_sum df"] False show ?thesis
    by (simp add: summary_of_def Let_def data_quality_of_def)
qed

theorem quality_label_bounds_witness:
  "isnull_sum_sum boundary_df = 1 \<and>
   index_len boundary_df * length (columns_of boundary_df) = 20 \<and>
   (1 - of_nat (isnull_sum_sum boundary_df) /
        of_nat (index_len boundary_df * length (columns_of boundary_df))) * (100 :: rat) = 95 \<and>
   dataQuality (summary_of boundary_df (Some ''default'') (Fin 50)) = ''Good''"
proof -
  have a: "isnull_sum_sum boundary_df = 1"
    "index_len boundary_df * length (columns_of boundary_df) = 20"
    by (simp_all add: boundary_df_def isnull_sum_sum_def columns_of_def)
  show ?thesis
    using quality_label_bounds[of boundary_df "Some ''default''" "Fin 50"]
    by (simp add: a Let_def)
qed

section \<open>Label encoding\<close>

lemma index_of_sorted_distinct:
  "sorted xs \<Longrightarrow> distinct xs \<Longrightarrow> v \<in> set xs \<Longrightarrow>
   index_of xs v = card {u \<in> set xs. u < v}"
proof (induction xs)
  case Nil
  then show ?case by simp
next
  case (Cons a xs)
  show ?case
  proof (cases "a = v")
    case True
    with Cons.prems have "{u \<in> set (a # xs). u < v} = {}" by auto
    with True show ?thesis by simp
  next
    case False
    with Cons.prems have v: "v \<in> set xs" and av: "a < v" by auto
    from Cons.prems have "sorted xs" "distinct xs" by simp_all
    from Cons.IH[OF this v] have ih: "index_of xs v = card {u \<in> set xs. u < v}" .
    from Cons.prems av have "{u \<in> set (a # xs). u < v} = insert a {u \<in> set xs. u < v}"
      by auto
    moreover from Cons.prems have "a \<notin> {u \<in> set xs. u < v}" by simp
    ultimately have "card {u \<in> set (a # xs). u < v} = Suc (card {u \<in> set xs. u < v})"
      by simp
    with False ih show ?thesis by simp
  qed
qed

lemma fit_transform_rank_codes: "fit_transform labels = rank_codes labels"
proof -
  have "index_of (sort (remdups labels)) v = card {u \<in> set labels. u < v}"
    if "v \<in> set labels" for v
    using index_of_sorted_distinct[of "sort (remdups labels)" v] that by simp
  then show ?thesis
    by (simp add: fit_transform_def LabelEncoder_transform_def LabelEncoder_fit_def
        rank_codes_def)
qed

lemma encoded_idem: "encoded (encoded c) = encoded c"
  by (cases c) simp_all

lemma map_of_map_snd:
  "map_of xs n = Some c \<Longrightarrow> map_of (map (\<lambda>p. (fst p, f (snd p))) xs) n = Some (f c)"
  by (induction xs) (auto split: if_splits)

lemma encode_column_cols:
  assumes "distinct (columns_of Y)"
  shows "cols (encode_column Y col) =
     map (\<lambda>p. if fst p = col then (fst p, encoded (snd p)) else p) (cols Y)"
proof (cases "map_of (cols Y) col")
  case None
  then have "col \<notin> fst ` set (cols Y)" by (simp add: map_of_eq_None_iff)
  then have "map (\<lambda>p. if fst p = col then (fst p, encoded (snd p)) else p) (cols Y) = cols Y"
    by (intro map_idI) auto
  with None show ?thesis by (simp add: encode_column_def getitem_def)
next
  case (Some c)
  then have mem: "(col, c) \<in> set (cols Y)" by (rule map_of_SomeD)
  have uniq: "snd p = c" if "p \<in> set (cols Y)" "fst p = col" for p
  proof -
    from assms that have "map_of (cols Y) (fst p) = Some (snd p)"
      by (cases p) (auto simp: columns_of_def)
    with that Some show ?thesis by simp
  qed
  show ?thesis
  proof (cases c)
    case (ObjCol cells)
    from mem have "col \<in> set (columns_of Y)" by (force simp: columns_of_def)
    with Some ObjCol have "cols (encode_column Y col) =
        map (\<lambda>(n, old). if n = col then (n, IntCol (map int (fit_transform (astype_str cells))))
                        else (n, old)) (cols Y)"
      by (simp add: encode_column_def getitem_def setitem_def)
    also have "\<dots> = map (\<lambda>p. if fst p = col then (fst p, encoded (snd p)) else p) (cols Y)"
      using uniq ObjCol by (intro map_cong) (auto simp: fit_transform_rank_codes)
    finally show ?thesis .
  next
    case (IntCol xs)
    with uniq have "map (\<lambda>p. if fst p = col then (fst p, encoded (snd p)) else p) (cols Y) = cols Y"
      by (intro map_idI) (auto simp: prod_eq_iff)
    with Some IntCol show ?thesis by (simp add: encode_column_def getitem_def)
  next
    case (FloatCol xs)
    with uniq have "map (\<lambda>p. if fst p = col then (fst p, encoded (snd p)) else p) (cols Y) = cols Y"
      by (intro map_idI) (auto simp: prod_eq_iff)
    with Some FloatCol show ?thesis by (simp add: encode_column_def getitem_def)
  qed
qed

lemma encode_column_columns:
  "distinct (columns_of Y) \<Longrightarrow> columns_of (encode_column Y col) = columns_of Y"
  by (simp add: columns_of_def encode_column_cols comp_def if_distrib cong: if_cong)

lemma foldl_encode_column_cols:
  "distinct (columns_of Y) \<Longrightarrow>
   cols (foldl encode_column Y ns) =
     map (\<lambda>p. if fst p \<in> set ns then (fst p, encoded (snd p)) else p) (cols Y)"
proof (induction ns arbitrary: Y)
  case Nil
  then show ?case by simp
next
  case (Cons col ns)
  from Cons.prems have d: "distinct (columns_of (encode_column Y col))"
    by (simp add: encode_column_columns)
  show ?case
    by (simp add: Cons.IH[OF d] encode_column_cols[OF Cons.prems] encoded_idem comp_def
        cong: if_cong)
qed

lemma encode_categoricals_cols:
  assumes "distinct (columns_of X)"
  shows "cols (encode_categoricals X) = map (\<lambda>p. (fst p, encoded (snd p))) (cols X)"
proof -
  have "(if fst p \<in> set (select_object X) then (fst p, encoded (snd p)) else p) =
        (fst p, encoded (snd p))" if "p \<in> set (cols X)" for p
  proof (cases "snd p")
    case (ObjCol cells)
    with that have "fst p \<in> set (select_object X)" by (force simp: select_object_def)
    then show ?thesis by simp
  next
    case (IntCol xs)
    then show ?thesis by (simp add: prod_eq_iff)
  next
    case (FloatCol xs)
    then show ?thesis by (simp add: prod_eq_iff)
  qed
  then show ?thesis
    by (simp add: encode_categoricals_def foldl_encode_column_cols[OF assms] cong: map_cong)
qed

text \<open>
  C3, as the code has it. In a frame with distinct labels every column keeps its place
  and its label; an object column is replaced by the codes of an encoder fitted on that
  column alone, and the code of a category is its rank among the distinct categories of
  the column in ascending order of strings; a numeric column is unchanged.
\<close>

theorem label_codes_by_rank:
  assumes "distinct (columns_of X)" and "(name, c) \<in> set (cols X)"
  shows "getitem (encode_categoricals X) name = Inr (encoded c) \<and>
         columns_of (encode_categoricals X) = columns_of X"
proof -
  from assms have "map_of (cols X) name = Some c" by (simp add: columns_of_def)
  then have "map_of (map (\<lambda>p. (fst p, encoded (snd p))) (cols X)) name = Some (encoded c)"
    by (rule map_of_map_snd)
  then show ?thesis
    by (simp add: getitem_def columns_of_def encode_categoricals_cols[OF assms(1)] comp_def)
qed

lemma grades_frame_encoded:
  "getitem (encode_categoricals grades_frame) ''grade'' = Inr (IntCol [2, 0, 1, 2])"
  by (simp add: encode_categoricals_def select_object_def grades_frame_def encode_column_def
      getitem_def setitem_def columns_of_def fit_transform_def LabelEncoder_fit_def
      LabelEncoder_transform_def astype_str_def)

theorem label_codes_by_rank_witness:
  "distinct (columns_of grades_frame) \<and>
   (''grade'', ObjCol [Some ''medium'', Some ''high'', Some ''low'', Some ''medium''])
     \<in> set (cols grades_frame) \<and>
   getitem (encode_categoricals grades_frame) ''grade'' = Inr (IntCol [2, 0, 1, 2]) \<and>
   columns_of (encode_categoricals grades_frame) = [''income'', ''grade'', ''region'']"
proof -
  have h: "distinct (columns_of grades_frame)"
    "(''grade'', ObjCol [Some ''medium'', Some ''high'', Some ''low'', Some ''medium''])
       \<in> set (cols grades_frame)"
    "columns_of grades_frame = [''income'', ''grade'', ''region'']"
    by (simp_all add: grades_frame_def columns_of_def)
  from label_codes_by_rank[OF h(1) h(2)] h grades_frame_encoded show ?thesis by simp
qed

text \<open>
  The claim as stated fails: \<open>medium\<close> is the first category observed in the column,
  and its code is 2, not 0.
\<close>

theorem label_codes_first_observed_counterexample:
  "getitem (encode_categoricals grades_frame) ''grade'' = Inr (IntCol [2, 0, 1, 2]) \<and>
   spec_first_observed_codes
     (astype_str [Some ''medium'', Some ''high'', Some ''low'', Some ''medium'']) = [0, 1, 2, 0]"
  by (simp add: grades_frame_encoded spec_first_observed_codes_def astype_str_def)

section \<open>A run of the analyze stage that gets through the derivations\<close>

lemma analyze_data_run:
  assumes "load_dataset fp s = (Inr df, s)"
    and "engineer_features w df s = (Inr dfp, sm)"
    and "default_rate_of df (analyze_target (columns_of df)) = Inr rate"
    and "to_csv_error w (processed_path pid) = None"
  shows "files (snd (analyze_data w fp pid s)) = (files s)(processed_path pid \<mapsto> dfp)"
    and "stdout (snd (analyze_data w fp pid s)) =
      stdout sm @
      [case json_dumps_error w
              (DatasetSummary (summary_of df (analyze_target (columns_of df)) rate)) of
         None \<Rightarrow> DatasetSummary (summary_of df (analyze_target (columns_of df)) rate)
       | Some e \<Rightarrow> Error (''Error analyzing data: '' @ str e)]"
    and "fst (analyze_data w fp pid s) =
      (case json_dumps_error w
              (DatasetSummary (summary_of df (analyze_target (columns_of df)) rate)) of
         None \<Rightarrow> Inr (Some dfp, analyze_target (columns_of df))
       | Some e \<Rightarrow> Inr (None, None))"
proof -
  from engineer_features_shape[OF assms(2)] have f: "files sm = files s" by simp
  show "files (snd (analyze_data w fp pid s)) = (files s)(processed_path pid \<mapsto> dfp)"
    using assms f
    by (simp add: analyze_data_def analyze_body_def bind_m_def lift_def return_m_def to_csv_def
        log_output_def split: option.splits)
  show "stdout (snd (analyze_data w fp pid s)) =
      stdout sm @
      [case json_dumps_error w
              (DatasetSummary (summary_of df (analyze_target (columns_of df)) rate)) of
         None \<Rightarrow> DatasetSummary (summary_of df (analyze_target (columns_of df)) rate)
       | Some e \<Rightarrow> Error (''Error analyzing data: '' @ str e)]"
    using assms f
    by (simp add: analyze_data_def analyze_body_def bind_m_def lift_def return_m_def to_csv_def
        log_output_def json_dumps_error_def split: option.splits)
  show "fst (analyze_data w fp pid s) =
      (case json_dumps_error w
              (DatasetSummary (summary_of df (analyze_target (columns_of df)) rate)) of
         None \<Rightarrow> Inr (Some dfp, analyze_target (columns_of df))
       | Some e \<Rightarrow> Inr (None, None))"
    using assms f
    by (simp add: analyze_data_def analyze_body_def bind_m_def lift_def return_m_def to_csv_def
        log_output_def json_dumps_error_def split: option.splits)
qed

section \<open>Running the analyze stage on its own output\<close>

lemma delays_engineered:
  "engineer_features w delays_df s =
     (Inr delays_once_df,
      s\<lparr>stdout := stdout s @ [FeatureEngineering ''avg_payment_delays'' ''completed'']\<rparr>)"
  "engineer_features w delays_once_df s =
     (Inr delays_twice_df,
      s\<lparr>stdout := stdout s @ [FeatureEngineering ''avg_payment_delays'' ''completed'']\<rparr>)"
  by (simp_all add: model_defs delays_df_def delays_once_df_def delays_twice_df_def)

lemma delays_selected:
  "payment_delay_cols delays_df = [''payment_delay_1'', ''avg_payment_delays'']"
  "payment_delay_cols delays_once_df = [''payment_delay_1'', ''avg_payment_delays'']"
  by (simp_all add: payment_delay_cols_def columns_of_def lower_def lower_char_def
      delays_df_def delays_once_df_def)

lemma delays_no_target:
  "default_rate_of delays_df (analyze_target (columns_of delays_df)) = Inr (Fin 0)"
  "default_rate_of delays_once_df (analyze_target (columns_of delays_once_df)) = Inr (Fin 0)"
  by (simp_all add: default_rate_of_def columns_of_def lower_def lower_char_def
      analyze_potential_targets_def delays_df_def delays_once_df_def)

text \<open>
  C9. The frame \<open>delays_df\<close> already has a column \<open>avg_payment_delays\<close>. The rule
  that selects the payment-delay columns selects it, on the raw frame and again on the
  stored output. Wherever the processed file can be written, one run stores the mean
  3/2 in that column and a run on the stored output stores 3/4: the transformation is not
  idempotent on the values of \<open>avg_payment_delays\<close>.
\<close>

theorem avg_payment_delays_not_idempotent:
  assumes "to_csv_error w (processed_path ''p'') = None"
  shows "''avg_payment_delays'' \<in> set (payment_delay_cols delays_df) \<and>
    files (snd (analyze_data w ''raw.csv'' ''p'' delays_state)) (processed_path ''p'') =
      Some delays_once_df \<and>
    ''avg_payment_delays'' \<in> set (payment_delay_cols delays_once_df) \<and>
    files (snd (analyze_data w (processed_path ''p'') ''p''
                  (snd (analyze_data w ''raw.csv'' ''p'' delays_state))))
      (processed_path ''p'') = Some delays_twice_df \<and>
    getitem delays_once_df ''avg_payment_delays'' = Inr (FloatCol [Fin (3 / 2)]) \<and>
    getitem delays_twice_df ''avg_payment_delays'' = Inr (FloatCol [Fin (3 / 4)])"
proof -
  let ?s1 = "snd (analyze_data w ''raw.csv'' ''p'' delays_state)"
  have l1: "load_dataset ''raw.csv'' delays_state = (Inr delays_df, delays_state)"
    by (simp add: load_dataset_def endswith_def read_table_def delays_state_def)
  have f1: "files ?s1 = (files delays_state)(processed_path ''p'' \<mapsto> delays_once_df)"
    by (rule analyze_data_run(1)[OF l1 delays_engineered(1) delays_no_target(1) assms])
  have l2: "load_dataset (processed_path ''p'') ?s1 = (Inr delays_once_df, ?s1)"
    by (simp add: load_dataset_def endswith_def read_table_def f1 processed_path_def)
  have f2: "files (snd (analyze_data w (processed_path ''p'') ''p'' ?s1)) =
      (files ?s1)(processed_path ''p'' \<mapsto> delays_twice_df)"
    by (rule analyze_data_run(1)[OF l2 delays_engineered(2) delays_no_target(2) assms])
  show ?thesis
    by (simp add: f1 f2 delays_selected)
      (simp add: getitem_def delays_once_df_def delays_twice_df_def)
qed

theorem avg_payment_delays_not_idempotent_witness:
  "to_csv_error ok_world (processed_path ''p'') = None \<and>
   files (snd (analyze_data ok_world ''raw.csv'' ''p'' delays_state)) (processed_path ''p'') =
     Some delays_once_df \<and>
   files (snd (analyze_data ok_world (processed_path ''p'') ''p''
                 (snd (analyze_data ok_world ''raw.csv'' ''p'' delays_state))))
     (processed_path ''p'') = Some delays_twice_df \<and>
   delays_once_df \<noteq> delays_twice_df"
proof -
  have h: "to_csv_error ok_world (processed_path ''p'') = None" by (simp add: ok_world_def)
  from avg_payment_delays_not_idempotent[OF h] h show ?thesis
    by (simp add: delays_once_df_def delays_twice_df_def)
qed

text \<open>
  The values change because the stored column was not the mean of the other selected
  columns. On finite values the mean of a row extended by its own mean is that mean, so
  a column that a run computed from the other payment-delay columns keeps its values
  (rounding apart) when the stage runs again on the output.
\<close>

lemma foldl_fadd_Fin: "foldl fadd (Fin a) (map Fin xs) = Fin (a + sum_list xs)"
  by (induction xs arbitrary: a) (simp_all add: add.assoc)

lemma nanmean_Fin:
  "xs \<noteq> [] \<Longrightarrow> nanmean (map Fin xs) = Fin (sum_list xs / of_nat (length xs))"
proof -
  assume "xs \<noteq> []"
  moreover have "filter (\<lambda>v. v \<noteq> NaN) (map Fin xs) = map Fin xs"
    by (induction xs) simp_all
  ultimately show ?thesis by (simp add: nanmean_def foldl_fadd_Fin)
qed

lemma nanmean_extended_by_mean:
  assumes "xs \<noteq> []"
  shows "nanmean (map Fin xs @ [nanmean (map Fin xs)]) = nanmean (map Fin xs)"
proof -
  let ?m = "sum_list xs / of_nat (length xs)"
  have n: "(of_nat (length xs) :: rat) \<noteq> 0" using assms by simp
  have "nanmean (map Fin xs @ [nanmean (map Fin xs)]) = nanmean (map Fin (xs @ [?m]))"
    using assms by (simp add: nanmean_Fin)
  also have "\<dots> = Fin (sum_list (xs @ [?m]) / of_nat (length (xs @ [?m])))"
    by (rule nanmean_Fin) simp
  also have "sum_list (xs @ [?m]) / of_nat (length (xs @ [?m])) = ?m"
  proof -
    have p: "(of_nat (length xs) :: rat) + 1 \<noteq> 0"
      using of_nat_0_le_iff[of "length xs", where 'a = rat] by linarith
    have "sum_list xs + ?m = ?m * (of_nat (length xs) + 1)"
      using n by (simp add: field_simps)
    then have "(sum_list xs + ?m) / (of_nat (length xs) + 1) = ?m"
      using p by (simp add: nonzero_divide_eq_eq)
    then show ?thesis by (simp add: add.commute)
  qed
  finally show ?thesis using assms by (simp add: nanmean_Fin)
qed

section \<open>What the train stage writes\<close>

lemma raise_if_shape:
  "raise_if x s = (r, s') \<Longrightarrow> s' = s \<and> (r = Inr () \<longleftrightarrow> x = None)"
  by (auto simp: raise_if_def split: option.splits)

text \<open>
  One round of the loop writes the \<open>training\<close> event of its candidate and, when nothing
  raised, the \<open>completed\<close> event; the running best changes only on a strictly greater
  ROC-AUC.
\<close>

lemma train_one_shape:
  assumes "train_one w pid X y name (bm, bs, rs) s = (r, s')"
  shows "files s' = files s \<and>
     ((\<exists>e. r = Inl e \<and>
         (stdout s' = stdout s \<or> stdout s' = stdout s @ [ModelUpdate name (Training 0)])) \<or>
      (\<exists>fr. fit_evaluate w name X y = Inr fr \<and>
         r = Inr (if bs < roc_auc fr then (Some name, roc_auc fr, rs @ [(name, fr)])
                  else (bm, bs, rs @ [(name, fr)])) \<and>
         stdout s' = stdout s @
           [ModelUpdate name (Training 0), ModelUpdate name (Completed (completed_of X fr))]))"
proof -
  obtain r1 s1 where l1: "log_output w (ModelUpdate name (Training 0)) s = (r1, s1)"
    by fastforce
  note h1 = log_output_shape[OF l1]
  show ?thesis
  proof (cases r1)
    case (Inl e)
    with assms l1 have "r = Inl e" "s' = s1" by (simp_all add: train_one_def bind_m_def)
    with h1 Inl show ?thesis by auto
  next
    case u1: (Inr u1)
    with h1 have o1: "stdout s1 = stdout s @ [ModelUpdate name (Training 0)]"
      and f1: "files s1 = files s" by auto
    show ?thesis
    proof (cases "fit_evaluate w name X y")
      case (Inl e)
      with assms l1 u1 have "r = Inl e" "s' = s1"
        by (simp_all add: train_one_def bind_m_def lift_def)
      with o1 f1 show ?thesis by auto
    next
      case fr: (Inr fr)
      show ?thesis
      proof (cases "joblib_dump_error w (model_path pid name)")
        case (Some e)
        with assms l1 u1 fr have "r = Inl e" "s' = s1"
          by (simp_all add: train_one_def bind_m_def lift_def raise_if_def)
        with o1 f1 show ?thesis by auto
      next
        case None
        obtain r2 s2 where
          l2: "log_output w (ModelUpdate name (Completed (completed_of X fr))) s1 = (r2, s2)"
          by fastforce
        note h2 = log_output_shape[OF l2]
        show ?thesis
        proof (cases r2)
          case (Inl e)
          with assms l1 u1 fr None l2 have "r = Inl e" "s' = s2"
            by (simp_all add: train_one_def bind_m_def lift_def raise_if_def)
          with h2 Inl o1 f1 show ?thesis by auto
        next
          case u2: (Inr u2)
          with assms l1 u1 fr None l2
          have "r = Inr (if bs < roc_auc fr then (Some name, roc_auc fr, rs @ [(name, fr)])
                  else (bm, bs, rs @ [(name, fr)]))" "s' = s2"
            by (simp_all add: train_one_def bind_m_def lift_def raise_if_def return_m_def)
          with h2 u2 o1 f1 fr show ?thesis by auto
        qed
      qed
    qed
  qed
qed

lemma train_one_updates:
  assumes "train_one w pid X y name b s = (r, s')"
  shows "files s' = files s \<and>
     (\<exists>evs. stdout s' = stdout s @ evs \<and> list_all is_model_update evs)"
proof -
  obtain bm bs rs where b: "b = (bm, bs, rs)" by (cases b) auto
  from train_one_shape[OF assms[unfolded b]] show ?thesis by auto
qed

lemma train_loop_updates:
  "train_loop w pid X y names b s = (r, s') \<Longrightarrow>
   files s' = files s \<and> (\<exists>evs. stdout s' = stdout s @ evs \<and> list_all is_model_update evs)"
proof (induction names arbitrary: b s)
  case Nil
  then show ?case by simp
next
  case (Cons name rest)
  obtain r1 s1 where t: "train_one w pid X y name b s = (r1, s1)" by fastforce
  from train_one_updates[OF t] obtain evs1 where
    f1: "files s1 = files s" and o1: "stdout s1 = stdout s @ evs1"
    and m1: "list_all is_model_update evs1" by blast
  show ?case
  proof (cases r1)
    case (Inl e)
    with Cons.prems t have "s' = s1" by simp
    with f1 o1 m1 show ?thesis by blast
  next
    case (Inr b1)
    with Cons.prems t have "train_loop w pid X y rest b1 s1 = (r, s')" by simp
    from Cons.IH[OF this] obtain evs2 where
      "files s' = files s1" "stdout s' = stdout s1 @ evs2" "list_all is_model_update evs2"
      by blast
    with f1 o1 m1 have "files s' = files s \<and> stdout s' = stdout s @ (evs1 @ evs2) \<and>
      list_all is_model_update (evs1 @ evs2)" by simp
    then show ?thesis by blast
  qed
qed

text \<open>
  From the split on, the stage writes \<open>model_update\<close> events and then at most the
  \<open>roc_data\<close> and the \<open>best_model\<close> event: no \<open>error\<close> event.
\<close>

lemma train_with_target_shape:
  assumes "train_with_target w pid df t s = (r, s')"
  shows "files s' = files s \<and>
     (\<exists>evs tl. stdout s' = stdout s @ evs @ tl \<and> list_all is_model_update evs \<and>
        list_all (\<lambda>e. \<not> is_error e \<and> \<not> is_model_update e) tl)"
proof (cases "getitem df t")
  case (Inl e)
  with assms have "s' = s" by (simp add: train_with_target_def bind_m_def lift_def)
  then show ?thesis by (intro conjI exI[of _ "[]"]) simp_all
next
  case y: (Inr y)
  let ?X = "encode_categoricals (drop_column df t)"
  show ?thesis
  proof (cases "split_scale_error w ?X y")
    case (Some e)
    with assms y have "s' = s"
      by (simp add: train_with_target_def bind_m_def lift_def raise_if_def)
    then show ?thesis by (intro conjI exI[of _ "[]"]) simp_all
  next
    case None
    obtain r1 s1 where l: "train_loop w pid ?X y model_names (None, 0, []) s = (r1, s1)"
      by fastforce
    from train_loop_updates[OF l] obtain evs where
      f1: "files s1 = files s" and o1: "stdout s1 = stdout s @ evs"
      and m1: "list_all is_model_update evs" by blast
    show ?thesis
    proof (cases r1)
      case (Inl e)
      with assms y None l have "s' = s1"
        by (simp add: train_with_target_def bind_m_def lift_def raise_if_def)
      with f1 o1 m1 show ?thesis by (intro conjI exI[of _ evs] exI[of _ "[]"]) simp_all
    next
      case (Inr b)
      obtain bm bs rs where b: "b = (bm, bs, rs)" by (cases b) auto
      show ?thesis
      proof (cases "roc_loop w rs")
        case (Inl e)
        with assms y None l Inr b have "s' = s1"
          by (simp add: train_with_target_def bind_m_def lift_def raise_if_def)
        with f1 o1 m1 show ?thesis by (intro conjI exI[of _ evs] exI[of _ "[]"]) simp_all
      next
        case rd: (Inr rd)
        obtain r2 s2 where l2: "log_output w (RocData rd) s1 = (r2, s2)" by fastforce
        note h2 = log_output_shape[OF l2]
        show ?thesis
        proof (cases r2)
          case (Inl e)
          with assms y None l Inr b rd l2 have "s' = s2"
            by (simp add: train_with_target_def bind_m_def lift_def raise_if_def)
          with h2 Inl f1 o1 m1 show ?thesis
            by (intro conjI exI[of _ evs] exI[of _ "[]"]) auto
        next
          case u2: (Inr u2)
          with h2 f1 o1 have f2: "files s2 = files s"
            and o2: "stdout s2 = stdout s @ evs @ [RocData rd]" by auto
          from assms y None l Inr b rd l2 u2
          have l3: "log_output w (BestModel bm bs) s2 = (r, s')"
            by (simp add: train_with_target_def bind_m_def lift_def raise_if_def)
          note h3 = log_output_shape[OF l3]
          from h3 show ?thesis
          proof (elim conjE disjE exE)
            fix e assume "files s' = files s2" "r = Inl e" "stdout s' = stdout s2"
            with f2 o2 m1 show ?thesis
              by (intro conjI exI[of _ evs] exI[of _ "[RocData rd]"]) simp_all
          next
            assume "files s' = files s2" "r = Inr ()"
              "stdout s' = stdout s2 @ [BestModel bm bs]"
            with f2 o2 m1 show ?thesis
              by (intro conjI exI[of _ evs] exI[of _ "[RocData rd, BestModel bm bs]"]) simp_all
          qed
        qed
      qed
    qed
  qed
qed

lemma feature_events_no_error:
  "fes \<in> set (subseqs feature_events) \<Longrightarrow>
   filter is_error fes = [] \<and> filter is_model_update fes = []"
  by (auto simp: feature_events_def Let_def)

lemma model_updates_no_error: "list_all is_model_update evs \<Longrightarrow> filter is_error evs = []"
proof (induction evs)
  case Nil
  then show ?case by simp
next
  case (Cons ev evs)
  then show ?case by (cases ev) simp_all
qed

lemma train_with_target_no_error:
  assumes "train_with_target w pid df t s = (r, s')"
  shows "files s' = files s \<and> (\<exists>evs. stdout s' = stdout s @ evs \<and> filter is_error evs = [])"
proof -
  from train_with_target_shape[OF assms] obtain evs tl where
    a: "files s' = files s" "stdout s' = stdout s @ evs @ tl" "list_all is_model_update evs"
       "list_all (\<lambda>e. \<not> is_error e \<and> \<not> is_model_update e) tl" by blast
  from a(4) have "filter is_error tl = []" by (induction tl) simp_all
  with a model_updates_no_error[OF a(3)] have
    "stdout s' = stdout s @ (evs @ tl) \<and> filter is_error (evs @ tl) = []" by simp
  with a(1) show ?thesis by blast
qed

text \<open>The three ways through the body of the train stage.\<close>

lemma train_body_processed:
  "files s (processed_path pid) = Some df \<Longrightarrow> train_body w fp pid s = train_frame w pid df s"
  by (simp add: train_body_def obtain_dataset_def read_table_def bind_m_def return_m_def)

lemma train_body_analyzed:
  "files s (processed_path pid) = None \<Longrightarrow> analyze_data w fp pid s = (Inr (Some dfp, t), s1) \<Longrightarrow>
   train_body w fp pid s = train_frame w pid dfp s1"
  by (simp add: train_body_def obtain_dataset_def bind_m_def return_m_def)

lemma train_body_analysis_failed:
  "files s (processed_path pid) = None \<Longrightarrow> analyze_data w fp pid s = (Inr (None, t), s1) \<Longrightarrow>
   train_body w fp pid s = (Inr (), s1)"
  by (simp add: train_body_def obtain_dataset_def bind_m_def return_m_def)

lemma train_frame_shape:
  assumes "train_frame w pid df s = (r, s')"
  shows "files s' = files s \<and>
     (\<exists>evs. stdout s' = stdout s @ evs \<and>
        ((\<exists>e. r = Inl e \<and> filter is_error evs = []) \<or>
         (r = Inr () \<and> length (filter is_error evs) \<le> 1)))"
proof (cases "truthy (train_target (columns_of df))")
  case False
  with assms have "r = Inr ()"
    "s' = s\<lparr>stdout := stdout s @ [Error ''No target column found for training'']\<rparr>"
    by (simp_all add: train_frame_def)
  then show ?thesis
    by (intro conjI exI[of _ "[Error ''No target column found for training'']"]) simp_all
next
  case True
  with assms have "train_with_target w pid df (the (train_target (columns_of df))) s = (r, s')"
    by (simp add: train_frame_def)
  from train_with_target_no_error[OF this] obtain evs where
    a: "files s' = files s" "stdout s' = stdout s @ evs" "filter is_error evs = []" by blast
  have "(\<exists>e. r = Inl e) \<or> r = Inr ()" by (cases r) simp_all
  with a show ?thesis by (intro conjI exI[of _ evs]) auto
qed

text \<open>
  The body of the train stage writes no \<open>error\<close> event when it raises, and at most one
  when it returns.
\<close>

lemma train_body_shape:
  assumes "train_body w fp pid s = (r, s')"
  shows "\<exists>evs. stdout s' = stdout s @ evs \<and>
        ((\<exists>e. r = Inl e \<and> filter is_error evs = []) \<or>
         (r = Inr () \<and> length (filter is_error evs) \<le> 1))"
proof (cases "files s (processed_path pid)")
  case (Some df)
  from assms train_body_processed[OF Some] have "train_frame w pid df s = (r, s')" by simp
  from train_frame_shape[OF this] show ?thesis by blast
next
  case None
  from analyze_data_shape[of w fp pid s] obtain fes lst res s1 where
    a: "analyze_data w fp pid s = (Inr res, s1)" "fes \<in> set (subseqs feature_events)"
       "stdout s1 = stdout s @ fes @ [lst]"
       "(\<exists>e. lst = Error (''Error analyzing data: '' @ str e) \<and> res = (None, None)) \<or>
        (\<exists>dfp t d. res = (Some dfp, t) \<and> lst = DatasetSummary d)" by blast
  note n = feature_events_no_error[OF a(2)]
  from a(4) show ?thesis
  proof (elim disjE exE conjE)
    fix e assume l: "lst = Error (''Error analyzing data: '' @ str e)" and "res = (None, None)"
    with a(1) train_body_analysis_failed[OF None] assms have "r = Inr ()" "s' = s1" by simp_all
    with a(3) l n show ?thesis by (intro exI[of _ "fes @ [lst]"]) simp
  next
    fix dfp t d assume res: "res = (Some dfp, t)" and l: "lst = DatasetSummary d"
    with a(1) train_body_analyzed[OF None] assms have "train_frame w pid dfp s1 = (r, s')"
      by simp
    from train_frame_shape[OF this] obtain evs where
      b: "stdout s' = stdout s1 @ evs"
         "(\<exists>e. r = Inl e \<and> filter is_error evs = []) \<or>
          (r = Inr () \<and> length (filter is_error evs) \<le> 1)" by blast
    with a(3) l n show ?thesis by (intro exI[of _ "fes @ [lst] @ evs"]) auto
  qed
qed

section \<open>No exception leaves a stage\<close>

text \<open>
  C7. Both stages return a value on every input and in every world: the result is never
  an exception. When the body of a stage raises \<open>e\<close>, the body has written no
  \<open>error\<close> event, and the stage appends exactly one, whose message is the prefix of the
  stage followed by \<open>str(e)\<close>; the analyze stage then returns \<open>(None, None)\<close>. A run
  of either stage writes at most one \<open>error\<close> event.
\<close>

theorem stages_catch_exceptions:
  "(\<exists>res s' evs. analyze_data w fp pid s = (Inr res, s') \<and> stdout s' = stdout s @ evs \<and>
       length (filter is_error evs) \<le> 1) \<and>
   (\<exists>s' evs. train_models w fp pid s = (Inr (), s') \<and> stdout s' = stdout s @ evs \<and>
       length (filter is_error evs) \<le> 1) \<and>
   (\<forall>e sb. analyze_body w fp pid s = (Inl e, sb) \<longrightarrow>
      (\<exists>evs. stdout sb = stdout s @ evs \<and> filter is_error evs = [] \<and>
         analyze_data w fp pid s =
           (Inr (None, None),
            sb\<lparr>stdout := stdout s @ evs @ [Error (''Error analyzing data: '' @ str e)]\<rparr>))) \<and>
   (\<forall>e sb. train_body w fp pid s = (Inl e, sb) \<longrightarrow>
      (\<exists>evs. stdout sb = stdout s @ evs \<and> filter is_error evs = [] \<and>
         train_models w fp pid s =
           (Inr (),
            sb\<lparr>stdout := stdout s @ evs @ [Error (''Error training models: '' @ str e)]\<rparr>)))"
proof (intro conjI allI impI)
  from analyze_data_shape[of w fp pid s] obtain fes lst res s1 where
    a: "analyze_data w fp pid s = (Inr res, s1)" "fes \<in> set (subseqs feature_events)"
       "stdout s1 = stdout s @ fes @ [lst]" by blast
  from feature_events_no_error[OF a(2)] have "length (filter is_error (fes @ [lst])) \<le> 1"
    by simp
  with a show "\<exists>res s' evs. analyze_data w fp pid s = (Inr res, s') \<and>
      stdout s' = stdout s @ evs \<and> length (filter is_error evs) \<le> 1"
    by (intro exI[of _ res] exI[of _ s1] exI[of _ "fes @ [lst]"]) simp
next
  obtain r sb where b: "train_body w fp pid s = (r, sb)" by fastforce
  from train_body_shape[OF b] obtain evs where
    o: "stdout sb = stdout s @ evs"
    and alt: "(\<exists>e. r = Inl e \<and> filter is_error evs = []) \<or>
          (r = Inr () \<and> length (filter is_error evs) \<le> 1)" by blast
  from alt show "\<exists>s' evs. train_models w fp pid s = (Inr (), s') \<and>
      stdout s' = stdout s @ evs \<and> length (filter is_error evs) \<le> 1"
  proof (elim disjE exE conjE)
    fix e assume "r = Inl e" and n: "filter is_error evs = []"
    with b have "train_models w fp pid s =
      (Inr (), sb\<lparr>stdout := stdout sb @ [Error (''Error training models: '' @ str e)]\<rparr>)"
      by (simp add: train_models_def)
    with o n show ?thesis
      by (intro exI[of _ "sb\<lparr>stdout := stdout sb @
            [Error (''Error training models: '' @ str e)]\<rparr>"]
          exI[of _ "evs @ [Error (''Error training models: '' @ str e)]"]) simp
  next
    assume "r = Inr ()" and n: "length (filter is_error evs) \<le> 1"
    with b have "train_models w fp pid s = (Inr (), sb)" by (simp add: train_models_def)
    with o n show ?thesis by (intro exI[of _ sb] exI[of _ evs]) simp
  qed
next
  fix e sb assume b: "analyze_body w fp pid s = (Inl e, sb)"
  from analyze_body_shape[OF b] obtain fes where
    f: "fes \<in> set (subseqs feature_events)" "stdout sb = stdout s @ fes" by auto
  from analyze_data_raised[OF b] f feature_events_no_error[OF f(1)]
  show "\<exists>evs. stdout sb = stdout s @ evs \<and> filter is_error evs = [] \<and>
         analyze_data w fp pid s =
           (Inr (None, None),
            sb\<lparr>stdout := stdout s @ evs @ [Error (''Error analyzing data: '' @ str e)]\<rparr>)"
    by (intro exI[of _ fes]) simp
next
  fix e sb assume b: "train_body w fp pid s = (Inl e, sb)"
  from train_body_shape[OF b] obtain evs where
    o: "stdout sb = stdout s @ evs" "filter is_error evs = []" by auto
  from b have "train_models w fp pid s =
      (Inr (), sb\<lparr>stdout := stdout sb @ [Error (''Error training models: '' @ str e)]\<rparr>)"
    by (simp add: train_models_def)
  with o show "\<exists>evs. stdout sb = stdout s @ evs \<and> filter is_error evs = [] \<and>
         train_models w fp pid s =
           (Inr (),
            sb\<lparr>stdout := stdout s @ evs @ [Error (''Error training models: '' @ str e)]\<rparr>)"
    by (intro exI[of _ evs]) simp
qed

lemma unsupported_format_raises:
  "analyze_body raising_world ''data.txt'' ''p1'' processed_state =
     (Inl (ValueError ''Unsupported file format''), processed_state)"
  by (simp add: analyze_body_def load_dataset_def endswith_def bind_m_def lift_def)

lemma small_df_target: "train_target (columns_of small_df) = Some ''default''"
  by (simp add: columns_of_def small_df_def lower_def lower_char_def train_potential_targets_def)

lemma failed_fit_raises:
  "train_body raising_world ''data.txt'' ''p1'' processed_state =
     (Inl (LibraryError ''fit failed''),
      processed_state\<lparr>stdout := [ModelUpdate ''logistic_regression'' (Training 0)]\<rparr>)"
proof -
  have f: "files processed_state (processed_path ''p1'') = Some small_df"
    by (simp add: processed_state_def)
  have y: "getitem small_df ''default'' = Inr (IntCol [0, 1])"
    by (simp add: getitem_def small_df_def)
  show ?thesis
    unfolding train_body_processed[OF f]
    by (simp add: train_frame_def small_df_target train_with_target_def y bind_m_def lift_def
        raise_if_def model_names_def train_one_def log_output_def json_dumps_error_def
        raising_world_def ok_world_def processed_state_def)
qed

theorem stages_catch_exceptions_witness:
  "analyze_body raising_world ''data.txt'' ''p1'' processed_state =
     (Inl (ValueError ''Unsupported file format''), processed_state) \<and>
   train_body raising_world ''data.txt'' ''p1'' processed_state =
     (Inl (LibraryError ''fit failed''),
      processed_state\<lparr>stdout := [ModelUpdate ''logistic_regression'' (Training 0)]\<rparr>) \<and>
   analyze_data raising_world ''data.txt'' ''p1'' processed_state =
     (Inr (None, None),
      processed_state\<lparr>stdout := [Error ''Error analyzing data: Unsupported file format'']\<rparr>) \<and>
   train_models raising_world ''data.txt'' ''p1'' processed_state =
     (Inr (),
      processed_state\<lparr>stdout :=
        [ModelUpdate ''logistic_regression'' (Training 0),
         Error ''Error training models: fit failed'']\<rparr>)"
proof -
  have s: "stdout processed_state = []" by (simp add: processed_state_def)
  show ?thesis
    using stages_catch_exceptions[of raising_world "''data.txt''" "''p1''" processed_state]
    by (simp add: unsupported_format_raises failed_fit_raises s)
qed

section \<open>The columns of the processed frame\<close>

lemma columns_of_setitem:
  "columns_of (setitem p name c) =
     (if name \<in> set (columns_of p) then columns_of p else columns_of p @ [name])"
proof -
  have "map fst (map (\<lambda>(n, old). if n = name then (n, c) else (n, old)) xs) = map fst xs"
    for xs :: "(string \<times> column) list"
    by (induction xs) auto
  then show ?thesis by (simp add: setitem_def columns_of_def)
qed

lemma derive_debt_to_income_columns:
  "derive_debt_to_income w df p s = (Inr p', s') \<Longrightarrow>
   set (columns_of p') =
     set (columns_of p) \<union>
     (if ''debt_payments'' \<in> set (columns_of df) \<and> ''income'' \<in> set (columns_of df)
      then {''debt_to_income_ratio''} else {})"
  by (auto simp: derive_debt_to_income_def bind_m_def lift_def return_m_def columns_of_setitem
      log_output_def json_dumps_error_def split: if_splits sum.splits)

lemma derive_credit_utilization_columns:
  "derive_credit_utilization w df p s = (Inr p', s') \<Longrightarrow>
   set (columns_of p') =
     set (columns_of p) \<union>
     (if ''credit_used'' \<in> set (columns_of df) \<and> ''credit_limit'' \<in> set (columns_of df)
      then {''credit_utilization_rate''} else {})"
  by (auto simp: derive_credit_utilization_def bind_m_def lift_def return_m_def
      columns_of_setitem log_output_def json_dumps_error_def split: if_splits sum.splits)

lemma derive_avg_payment_delays_columns:
  "derive_avg_payment_delays w df p s = (Inr p', s') \<Longrightarrow>
   set (columns_of p') =
     set (columns_of p) \<union>
     (if payment_delay_cols df \<noteq> [] then {''avg_payment_delays''} else {})"
  by (auto simp: derive_avg_payment_delays_def bind_m_def lift_def return_m_def
      columns_of_setitem log_output_def json_dumps_error_def split: if_splits sum.splits)

text \<open>
  The processed frame has the columns of the raw frame and, for each derivation whose
  source columns the raw frame has, the derived column.
\<close>

lemma engineer_features_columns:
  assumes "engineer_features w df s = (Inr dfp, s')"
  shows "set (columns_of dfp) =
     set (columns_of df) \<union>
     (if ''debt_payments'' \<in> set (columns_of df) \<and> ''income'' \<in> set (columns_of df)
      then {''debt_to_income_ratio''} else {}) \<union>
     (if ''credit_used'' \<in> set (columns_of df) \<and> ''credit_limit'' \<in> set (columns_of df)
      then {''credit_utilization_rate''} else {}) \<union>
     (if payment_delay_cols df \<noteq> [] then {''avg_payment_delays''} else {})"
proof -
  obtain r1 s1 where d1: "derive_debt_to_income w df df s = (r1, s1)" by fastforce
  with assms obtain p1 where p1: "r1 = Inr p1"
    by (cases r1) (simp_all add: engineer_features_def bind_m_def)
  obtain r2 s2 where d2: "derive_credit_utilization w df p1 s1 = (r2, s2)" by fastforce
  with assms d1 p1 obtain p2 where p2: "r2 = Inr p2"
    by (cases r2) (simp_all add: engineer_features_def bind_m_def)
  from assms d1 p1 d2 p2 have d3: "derive_avg_payment_delays w df p2 s2 = (Inr dfp, s')"
    by (simp add: engineer_features_def bind_m_def)
  from derive_debt_to_income_columns[OF d1[unfolded p1]]
    derive_credit_utilization_columns[OF d2[unfolded p2]]
    derive_avg_payment_delays_columns[OF d3]
  show ?thesis by simp
qed

lemma engineer_features_no_target:
  assumes "engineer_features w df s = (Inr dfp, s')" and "train_target (columns_of df) = None"
  shows "train_target (columns_of dfp) = None"
proof -
  have d: "lower ''debt_to_income_ratio'' \<notin> set train_potential_targets"
    "lower ''credit_utilization_rate'' \<notin> set train_potential_targets"
    "lower ''avg_payment_delays'' \<notin> set train_potential_targets"
    by (simp_all add: lower_def lower_char_def train_potential_targets_def)
  from assms(2) have "\<forall>c \<in> set (columns_of df). lower c \<notin> set train_potential_targets"
    by (simp add: train_target_None_iff)
  with d have "\<forall>c \<in> set (columns_of dfp). lower c \<notin> set train_potential_targets"
    unfolding engineer_features_columns[OF assms(1)] by (auto split: if_splits)
  then show ?thesis by (simp add: train_target_None_iff)
qed

section \<open>Training without a target column\<close>

lemma train_frame_no_target:
  "train_target (columns_of df) = None \<Longrightarrow>
   train_frame w pid df s =
     (Inr (), s\<lparr>stdout := stdout s @ [Error ''No target column found for training'']\<rparr>)"
  by (simp add: train_frame_def)

lemma train_models_returned:
  "train_body w fp pid s = (Inr u, s') \<Longrightarrow> train_models w fp pid s = (Inr (), s')"
  by (simp add: train_models_def)

text \<open>
  C6, amended. Let the frame the train stage starts from (the processed file when it
  exists, the file at \<open>file_path\<close> otherwise) have none of the five target names. Then
  the stage returns, writes no \<open>model_update\<close> event and exactly one \<open>error\<close> event,
  which is the last event it writes. Its message is determined: when the processed file
  exists it is \<open>No target column found for training\<close>; when it does not exist, and the
  body of the analyze stage raises \<open>e\<close>, it is \<open>Error analyzing data: \<close> followed by
  \<open>str(e)\<close>, written by the analyze stage, and the train stage adds nothing; when it
  does not exist and the body of the analyze stage returns, it is
  \<open>No target column found for training\<close>.
\<close>

theorem no_target_single_error:
  assumes "train_target (columns_of df) = None"
    and "files s (processed_path pid) = Some df \<or>
         (files s (processed_path pid) = None \<and> files s fp = Some df)"
  shows "\<exists>evs s'.
     train_models w fp pid s = (Inr (), s') \<and>
     stdout s' = stdout s @ evs @
       [Error (if files s (processed_path pid) = None
               then (case fst (analyze_body w fp pid s) of
                       Inl e \<Rightarrow> ''Error analyzing data: '' @ str e
                     | Inr r \<Rightarrow> ''No target column found for training'')
               else ''No target column found for training'')] \<and>
     filter is_error evs = [] \<and> filter is_model_update evs = []"
  using assms(2)
proof (elim disjE conjE)
  assume f: "files s (processed_path pid) = Some df"
  have "train_body w fp pid s =
      (Inr (), s\<lparr>stdout := stdout s @ [Error ''No target column found for training'']\<rparr>)"
    by (simp add: train_body_processed[OF f] train_frame_no_target[OF assms(1)])
  from train_models_returned[OF this] f show ?thesis
    by (intro exI[of _ "[]"]
        exI[of _ "s\<lparr>stdout := stdout s @ [Error ''No target column found for training'']\<rparr>"])
      simp
next
  assume n: "files s (processed_path pid) = None" and f: "files s fp = Some df"
  obtain r sb where b: "analyze_body w fp pid s = (r, sb)" by fastforce
  from analyze_body_shape[OF b] obtain fes where fes: "fes \<in> set (subseqs feature_events)"
    and alt: "(\<exists>e. r = Inl e \<and> stdout sb = stdout s @ fes) \<or>
      (\<exists>df' dfp rate sm.
          files s fp = Some df' \<and>
          engineer_features w df' s = (Inr dfp, sm) \<and>
          r = Inr (dfp, analyze_target (columns_of df')) \<and>
          stdout sb = stdout s @ fes @
             [DatasetSummary (summary_of df' (analyze_target (columns_of df')) rate)])"
    by blast
  note q = feature_events_no_error[OF fes]
  from alt show ?thesis
  proof (elim disjE exE conjE)
    fix e assume r: "r = Inl e" and o: "stdout sb = stdout s @ fes"
    let ?m = "''Error analyzing data: '' @ str e"
    let ?s = "sb\<lparr>stdout := stdout sb @ [Error ?m]\<rparr>"
    from b r have "analyze_data w fp pid s = (Inr (None, None), ?s)"
      by (simp add: analyze_data_raised)
    from train_body_analysis_failed[OF n this] have "train_models w fp pid s = (Inr (), ?s)"
      by (rule train_models_returned)
    with o q n b r show ?thesis
      by (intro exI[of _ fes] exI[of _ ?s]) simp
  next
    fix df' dfp rate sm
    assume f': "files s fp = Some df'" and e: "engineer_features w df' s = (Inr dfp, sm)"
      and r: "r = Inr (dfp, analyze_target (columns_of df'))"
      and o: "stdout sb = stdout s @ fes @
             [DatasetSummary (summary_of df' (analyze_target (columns_of df')) rate)]"
    from f f' have "df' = df" by simp
    with e assms(1) have t: "train_target (columns_of dfp) = None"
      by (simp add: engineer_features_no_target)
    let ?d = "DatasetSummary (summary_of df' (analyze_target (columns_of df')) rate)"
    let ?s = "sb\<lparr>stdout := stdout sb @ [Error ''No target column found for training'']\<rparr>"
    from b r have "analyze_data w fp pid s = (Inr (Some dfp, analyze_target (columns_of df')), sb)"
      by (simp add: analyze_data_returned)
    from train_body_analyzed[OF n this] have "train_body w fp pid s = (Inr (), ?s)"
      by (simp add: train_frame_no_target[OF t])
    from train_models_returned[OF this] o q n b r show ?thesis
      by (intro exI[of _ "fes @ [?d]"] exI[of _ ?s]) simp
  qed
qed

text \<open>
  Two runs of the train stage on the frame \<open>delays_df\<close>, which has no target column, in
  the world where no library call fails. Without a processed file the analyze stage runs,
  writes the processed file and fails on the summary payload; with the processed file the
  target check fails.
\<close>

lemma delays_df_no_target:
  "train_target (columns_of delays_df) = None"
  "train_target (columns_of delays_once_df) = None"
  by (simp_all add: columns_of_def delays_df_def delays_once_df_def lower_def lower_char_def
      train_potential_targets_def)

lemma delays_body_raises:
  "fst (analyze_body ok_world ''raw.csv'' ''p'' delays_state) =
     Inl (TypeError ''Object of type int64 is not JSON serializable'')"
proof -
  have l: "load_dataset ''raw.csv'' delays_state = (Inr delays_df, delays_state)"
    by (simp add: load_dataset_def endswith_def read_table_def delays_state_def)
  show ?thesis
    by (simp add: analyze_body_def bind_m_def lift_def l delays_engineered(1)
        delays_no_target(1) to_csv_def log_output_def json_dumps_error_def ok_world_def)
qed

theorem no_target_single_error_witness:
  "train_target (columns_of delays_df) = None \<and>
   files delays_state (processed_path ''p'') = None \<and>
   files delays_state ''raw.csv'' = Some delays_df \<and>
   filter is_error (stdout (snd (train_models ok_world ''raw.csv'' ''p'' delays_state))) =
     [Error ''Error analyzing data: Object of type int64 is not JSON serializable''] \<and>
   filter is_model_update
     (stdout (snd (train_models ok_world ''raw.csv'' ''p'' delays_state))) = [] \<and>
   train_target (columns_of delays_once_df) = None \<and>
   files delays_processed_state (processed_path ''p'') = Some delays_once_df \<and>
   stdout (snd (train_models ok_world ''raw.csv'' ''p'' delays_processed_state)) =
     [Error ''No target column found for training'']"
proof -
  have n: "files delays_state (processed_path ''p'') = None"
    by (simp add: delays_state_def processed_path_def)
  have f: "files delays_state ''raw.csv'' = Some delays_df" by (simp add: delays_state_def)
  have h: "files delays_state (processed_path ''p'') = Some delays_df \<or>
         (files delays_state (processed_path ''p'') = None \<and>
          files delays_state ''raw.csv'' = Some delays_df)"
    using n f by simp
  have s: "stdout delays_state = []" by (simp add: delays_state_def)
  have p: "files delays_processed_state (processed_path ''p'') = Some delays_once_df"
    by (simp add: delays_processed_state_def)
  have h': "files delays_processed_state (processed_path ''p'') = Some delays_once_df \<or>
         (files delays_processed_state (processed_path ''p'') = None \<and>
          files delays_processed_state ''raw.csv'' = Some delays_once_df)"
    using p by simp
  have s': "stdout delays_processed_state = []" by (simp add: delays_processed_state_def)
  from no_target_single_error[OF delays_df_no_target(1) h, of ok_world]
  obtain evs s1 where
    a: "train_models ok_world ''raw.csv'' ''p'' delays_state = (Inr (), s1)"
       "stdout s1 = evs @
          [Error ''Error analyzing data: Object of type int64 is not JSON serializable'']"
       "filter is_error evs = []" "filter is_model_update evs = []"
    by (auto simp: n s delays_body_raises)
  from no_target_single_error[OF delays_df_no_target(2) h', of ok_world]
  obtain evs' s2 where
    b: "train_models ok_world ''raw.csv'' ''p'' delays_processed_state = (Inr (), s2)"
       "stdout s2 = evs' @ [Error ''No target column found for training'']"
       "filter is_error evs' = []" "filter is_model_update evs' = []"
    by (auto simp: p s')
  have e: "evs' = []"
  proof -
    have "train_body ok_world ''raw.csv'' ''p'' delays_processed_state =
      (Inr (), delays_processed_state\<lparr>stdout := stdout delays_processed_state @
         [Error ''No target column found for training'']\<rparr>)"
      by (simp add: train_body_processed[OF p] train_frame_no_target[OF delays_df_no_target(2)])
    from train_models_returned[OF this] b(1,2) s' show ?thesis by simp
  qed
  from a b e n f p show ?thesis by (simp add: delays_df_no_target)
qed

text \<open>
  The claim as stated fails on \<open>text_income_df\<close>: the frame has none of the five names
  and there is no processed file, the division by the text column raises inside the
  analyze stage, and the one \<open>error\<close> event of the train stage carries the message of
  the analyze stage.
\<close>

lemma text_income_raises:
  "analyze_body ok_world ''raw.csv'' ''p1'' text_income_state =
     (Inl (TypeError
            (''unsupported operand type(s) for /: '' @ quoted ''int'' @ '' and '' @
             quoted ''str'')),
      text_income_state)"
  by (simp add: analyze_body_def engineer_features_def derive_debt_to_income_def
      load_dataset_def read_table_def endswith_def bind_m_def lift_def columns_of_def
      getitem_def series_div_def text_income_state_def text_income_df_def)

theorem no_target_message_counterexample:
  "train_target (columns_of text_income_df) = None \<and>
   files text_income_state (processed_path ''p1'') = None \<and>
   files text_income_state ''raw.csv'' = Some text_income_df \<and>
   stdout (snd (train_models ok_world ''raw.csv'' ''p1'' text_income_state)) =
     [Error (''Error analyzing data: unsupported operand type(s) for /: '' @ quoted ''int'' @
             '' and '' @ quoted ''str'')] \<and>
   Error ''No target column found for training'' \<notin>
     set (stdout (snd (train_models ok_world ''raw.csv'' ''p1'' text_income_state)))"
proof -
  have n: "files text_income_state (processed_path ''p1'') = None"
    by (simp add: text_income_state_def processed_path_def)
  have t: "train_target (columns_of text_income_df) = None"
    by (simp add: columns_of_def text_income_df_def lower_def lower_char_def
        train_potential_targets_def)
  have s: "stdout text_income_state = []" by (simp add: text_income_state_def)
  from train_body_analysis_failed[OF n analyze_data_raised[OF text_income_raises]]
  have "train_models ok_world ''raw.csv'' ''p1'' text_income_state =
     (Inr (), text_income_state\<lparr>stdout := stdout text_income_state @
        [Error (''Error analyzing data: '' @ str (TypeError
            (''unsupported operand type(s) for /: '' @ quoted ''int'' @ '' and '' @
             quoted ''str'')))]\<rparr>)"
    by (rule train_models_returned)
  with t s n show ?thesis by (simp add: text_income_state_def quoted_def)
qed

section \<open>The summary event\<close>

lemma feature_events_no_summary:
  "fes \<in> set (subseqs feature_events) \<Longrightarrow> DatasetSummary d \<notin> set fes"
  by (auto simp: feature_events_def Let_def)

lemma analyze_target_mem: "analyze_target cs = Some t \<Longrightarrow> t \<in> set cs"
  by (induction cs) (auto split: if_splits)

lemma summary_names_raw:
  "set (summary_names (summary_of df (analyze_target (columns_of df)) rate)) =
     set (columns_of df)"
proof -
  have "set (case analyze_target (columns_of df) of None \<Rightarrow> [] | Some t \<Rightarrow> [t]) \<subseteq>
      set (columns_of df)"
    by (cases "analyze_target (columns_of df)") (simp_all add: analyze_target_mem)
  moreover have "map fst (map (\<lambda>c. (fst c, dtype_str (snd c))) (cols df)) = columns_of df"
    by (simp add: columns_of_def comp_def)
  moreover have "set (select_number df) \<subseteq> set (columns_of df)"
    "set (select_object df) \<subseteq> set (columns_of df)"
    by (auto simp: select_number_def select_object_def columns_of_def)
  ultimately show ?thesis by (auto simp: summary_names_def summary_of_def)
qed

text \<open>
  The payload that the analyze stage hands to \<open>log_output\<close> is built from the frame
  as loaded: in a world whose encoder accepts it, the event that is written has the
  counts, the columns, the dtypes and the target of the raw frame, and the labels that
  stand in it are the labels of the raw frame; the processed file has in addition each
  derived column whose source columns the raw frame has.
\<close>

lemma written_summary_describes_raw_frame:
  assumes "DatasetSummary d \<in> set (stdout (snd (analyze_data w fp pid s)))"
    and "DatasetSummary d \<notin> set (stdout s)"
  shows "\<exists>df dfp.
     files s fp = Some df \<and>
     totalRecords d = index_len df \<and>
     features d = length (columns_of df) \<and>
     missingValues d = isnull_sum_sum df \<and>
     columns (summary d) = columns_of df \<and>
     dtypes (summary d) = map (\<lambda>c. (fst c, dtype_str (snd c))) (cols df) \<and>
     numerical_cols (summary d) = select_number df \<and>
     categorical_cols (summary d) = select_object df \<and>
     target_column (summary d) = analyze_target (columns_of df) \<and>
     set (summary_names d) = set (columns_of df) \<and>
     files (snd (analyze_data w fp pid s)) (processed_path pid) = Some dfp \<and>
     set (columns_of dfp) =
       set (columns_of df) \<union>
       (if ''debt_payments'' \<in> set (columns_of df) \<and> ''income'' \<in> set (columns_of df)
        then {''debt_to_income_ratio''} else {}) \<union>
       (if ''credit_used'' \<in> set (columns_of df) \<and> ''credit_limit'' \<in> set (columns_of df)
        then {''credit_utilization_rate''} else {}) \<union>
       (if payment_delay_cols df \<noteq> [] then {''avg_payment_delays''} else {})"
proof -
  from analyze_data_shape[of w fp pid s] obtain fes lst res s' where
    a: "analyze_data w fp pid s = (Inr res, s')" and fes: "fes \<in> set (subseqs feature_events)"
    and o: "stdout s' = stdout s @ fes @ [lst]"
    and alt: "(\<exists>e. lst = Error (''Error analyzing data: '' @ str e)) \<or>
      (\<exists>df dfp rate sm.
          files s fp = Some df \<and>
          engineer_features w df s = (Inr dfp, sm) \<and>
          lst = DatasetSummary (summary_of df (analyze_target (columns_of df)) rate) \<and>
          files s' = (files s)(processed_path pid \<mapsto> dfp))" by blast
  from assms a o feature_events_no_summary[OF fes] have l: "lst = DatasetSummary d" by auto
  with alt obtain df dfp rate sm where
    f: "files s fp = Some df" and e: "engineer_features w df s = (Inr dfp, sm)"
    and d: "d = summary_of df (analyze_target (columns_of df)) rate"
    and p: "files s' = (files s)(processed_path pid \<mapsto> dfp)" by auto
  from a p have "files (snd (analyze_data w fp pid s)) (processed_path pid) = Some dfp" by simp
  moreover note f engineer_features_columns[OF e] summary_names_raw[of df rate, folded d]
  moreover from d have "totalRecords d = index_len df" "features d = length (columns_of df)"
    "missingValues d = isnull_sum_sum df"
    "columns (summary d) = columns_of df"
    "dtypes (summary d) = map (\<lambda>c. (fst c, dtype_str (snd c))) (cols df)"
    "numerical_cols (summary d) = select_number df"
    "categorical_cols (summary d) = select_object df"
    "target_column (summary d) = analyze_target (columns_of df)"
    by (simp_all add: summary_of_def)
  ultimately show ?thesis by (intro exI[of _ df] exI[of _ dfp]) blast
qed

text \<open>
  A body of the analyze stage that returns has had its summary payload encoded. So in a
  world whose encoder rejects the summary payloads, as the standard encoder does, the
  stage never writes a summary event: every run returns \<open>(None, None)\<close>.
\<close>

lemma analyze_body_returned_encoded:
  assumes "analyze_body w fp pid s = (Inr r, sb)"
  shows "\<exists>d. encoder_error w (DatasetSummary d) = None"
proof -
  from analyze_body_shape[OF assms] obtain df rate where
    f: "files s fp = Some df"
    and d: "default_rate_of df (analyze_target (columns_of df)) = Inr rate"
    and e: "\<exists>dfp sm. engineer_features w df s = (Inr dfp, sm)" by auto
  then obtain dfp sm where e': "engineer_features w df s = (Inr dfp, sm)" by blast
  from load_dataset_shape[of fp s] f assms have l: "load_dataset fp s = (Inr df, s)"
    by (cases "load_dataset fp s") (auto simp: analyze_body_def bind_m_def split: sum.splits)
  from assms l e' d show ?thesis
    by (auto simp: analyze_body_def bind_m_def lift_def return_m_def to_csv_def log_output_def
        json_dumps_error_def split: option.splits)
qed

lemma rejected_summary_never_written:
  assumes "\<And>d. encoder_error w (DatasetSummary d) \<noteq> None"
  shows "fst (analyze_data w fp pid s) = Inr (None, None)"
    and "DatasetSummary d \<in> set (stdout (snd (analyze_data w fp pid s))) \<Longrightarrow>
         DatasetSummary d \<in> set (stdout s)"
proof -
  obtain r sb where b: "analyze_body w fp pid s = (r, sb)" by fastforce
  from analyze_body_returned_encoded assms b obtain e where r: "r = Inl e"
    by (cases r) blast+
  from analyze_body_shape[OF b] r obtain fes where
    fes: "fes \<in> set (subseqs feature_events)" and o: "stdout sb = stdout s @ fes" by auto
  note a = analyze_data_raised[OF b[unfolded r]]
  from a show "fst (analyze_data w fp pid s) = Inr (None, None)" by simp
  assume "DatasetSummary d \<in> set (stdout (snd (analyze_data w fp pid s)))"
  with a o feature_events_no_summary[OF fes] show "DatasetSummary d \<in> set (stdout s)"
    by auto
qed

text \<open>
  C8. The run that departs from the claim: on the file of \<open>small_state\<close> the analyze
  stage writes two feature events and the processed file, which has the derived columns,
  and then the encoder rejects the summary payload, whose \<open>missingValues\<close> is a NumPy
  integer. The stage writes an \<open>error\<close> event and returns \<open>(None, None)\<close>: no summary
  event is written, so there is no event whose fields describe the raw frame.
\<close>

theorem summary_payload_rejected:
  "analyze_data ok_world ''data.csv'' ''p1'' small_state =
     (Inr (None, None),
      \<lparr>stdout =
         [FeatureEngineering ''debt_to_income_ratio'' ''completed'',
          FeatureEngineering ''avg_payment_delays'' ''completed'',
          Error ''Error analyzing data: Object of type int64 is not JSON serializable''],
       files = [''data.csv'' \<mapsto> small_df, processed_path ''p1'' \<mapsto> small_processed_df]\<rparr>) \<and>
   filter (\<lambda>e. event_kind e = ''dataset_summary'')
     (stdout (snd (analyze_data ok_world ''data.csv'' ''p1'' small_state))) = [] \<and>
   columns_of small_processed_df =
     [''debt_payments'', ''income'', ''payment_delay_1'', ''default'',
      ''debt_to_income_ratio'', ''avg_payment_delays'']"
  by (simp add: small_run columns_of_def small_processed_df_def)

section \<open>A training run in which all three candidates complete\<close>

text \<open>
  The loop over the three candidates when nothing raises: the six \<open>model_update\<close>
  events, candidate by candidate, the results in the order of the candidates, and the
  running best. The best score is the greatest of 0 and the three ROC-AUC values; the
  best model is the first candidate that reaches it, and none when no ROC-AUC
  exceeds 0.
\<close>

lemma train_loop_three:
  assumes enc: "\<And>n u. encoder_error w (ModelUpdate n u) = None"
    and f1: "fit_evaluate w ''logistic_regression'' X y = Inr r1"
    and f2: "fit_evaluate w ''decision_tree'' X y = Inr r2"
    and f3: "fit_evaluate w ''random_forest'' X y = Inr r3"
    and dump: "\<And>n. joblib_dump_error w (model_path pid n) = None"
  shows "train_loop w pid X y model_names (None, 0, []) s =
     (Inr (if max (roc_auc r1) (max (roc_auc r2) (roc_auc r3)) \<le> 0 then None
           else if roc_auc r2 \<le> roc_auc r1 \<and> roc_auc r3 \<le> roc_auc r1
             then Some ''logistic_regression''
           else if roc_auc r3 \<le> roc_auc r2 then Some ''decision_tree''
           else Some ''random_forest'',
           max 0 (max (roc_auc r1) (max (roc_auc r2) (roc_auc r3))),
           [(''logistic_regression'', r1), (''decision_tree'', r2), (''random_forest'', r3)]),
      s\<lparr>stdout := stdout s @
         [ModelUpdate ''logistic_regression'' (Training 0),
          ModelUpdate ''logistic_regression'' (Completed (completed_of X r1)),
          ModelUpdate ''decision_tree'' (Training 0),
          ModelUpdate ''decision_tree'' (Completed (completed_of X r2)),
          ModelUpdate ''random_forest'' (Training 0),
          ModelUpdate ''random_forest'' (Completed (completed_of X r3))]\<rparr>)"
proof -
  have j: "json_dumps_error w (ModelUpdate n u) = None" for n u
    by (simp add: json_dumps_error_def enc)
  have one: "train_one w pid X y n (bm, bs, rs) t =
      (Inr (if bs < roc_auc r then (Some n, roc_auc r, rs @ [(n, r)])
            else (bm, bs, rs @ [(n, r)])),
       t\<lparr>stdout := stdout t @
          [ModelUpdate n (Training 0), ModelUpdate n (Completed (completed_of X r))]\<rparr>)"
    if "fit_evaluate w n X y = Inr r" for n bm bs rs t r
    using that
    by (simp add: train_one_def bind_m_def lift_def raise_if_def return_m_def log_output_def
        j dump)
  show ?thesis
    by (simp add: model_names_def one[OF f1] one[OF f2] one[OF f3] max_def)
qed

lemma roc_loop_three:
  assumes "roc_curve w (y_test r1) (y_pred_proba r1) = Inr c1"
    and "roc_curve w (y_test r2) (y_pred_proba r2) = Inr c2"
    and "roc_curve w (y_test r3) (y_pred_proba r3) = Inr c3"
  shows "roc_loop w [(n1, r1), (n2, r2), (n3, r3)] =
     Inr [(n1, \<lparr>fpr = fst c1, tpr = snd c1, auc = roc_auc r1\<rparr>),
          (n2, \<lparr>fpr = fst c2, tpr = snd c2, auc = roc_auc r2\<rparr>),
          (n3, \<lparr>fpr = fst c3, tpr = snd c3, auc = roc_auc r3\<rparr>)]"
  using assms by (simp add: split_beta)

lemma train_with_target_three:
  assumes enc: "\<And>n u. encoder_error w (ModelUpdate n u) = None"
    and enc_roc: "\<And>rd. encoder_error w (RocData rd) = None"
    and enc_best: "\<And>bm bs. encoder_error w (BestModel bm bs) = None"
    and y: "getitem df t = Inr y"
    and X: "X = encode_categoricals (drop_column df t)"
    and sp: "split_scale_error w X y = None"
    and f1: "fit_evaluate w ''logistic_regression'' X y = Inr r1"
    and f2: "fit_evaluate w ''decision_tree'' X y = Inr r2"
    and f3: "fit_evaluate w ''random_forest'' X y = Inr r3"
    and dump: "\<And>n. joblib_dump_error w (model_path pid n) = None"
    and c1: "roc_curve w (y_test r1) (y_pred_proba r1) = Inr c1"
    and c2: "roc_curve w (y_test r2) (y_pred_proba r2) = Inr c2"
    and c3: "roc_curve w (y_test r3) (y_pred_proba r3) = Inr c3"
  shows "train_with_target w pid df t s =
     (Inr (),
      s\<lparr>stdout := stdout s @
         [ModelUpdate ''logistic_regression'' (Training 0),
          ModelUpdate ''logistic_regression'' (Completed (completed_of X r1)),
          ModelUpdate ''decision_tree'' (Training 0),
          ModelUpdate ''decision_tree'' (Completed (completed_of X r2)),
          ModelUpdate ''random_forest'' (Training 0),
          ModelUpdate ''random_forest'' (Completed (completed_of X r3)),
          RocData
            [(''logistic_regression'', \<lparr>fpr = fst c1, tpr = snd c1, auc = roc_auc r1\<rparr>),
             (''decision_tree'', \<lparr>fpr = fst c2, tpr = snd c2, auc = roc_auc r2\<rparr>),
             (''random_forest'', \<lparr>fpr = fst c3, tpr = snd c3, auc = roc_auc r3\<rparr>)],
          BestModel
            (if max (roc_auc r1) (max (roc_auc r2) (roc_auc r3)) \<le> 0 then None
             else if roc_auc r2 \<le> roc_auc r1 \<and> roc_auc r3 \<le> roc_auc r1
               then Some ''logistic_regression''
             else if roc_auc r3 \<le> roc_auc r2 then Some ''decision_tree''
             else Some ''random_forest'')
            (max 0 (max (roc_auc r1) (max (roc_auc r2) (roc_auc r3))))]\<rparr>)"
proof -
  have j: "json_dumps_error w (RocData rd) = None"
    "json_dumps_error w (BestModel bm bs) = None" for rd bm bs
    by (simp_all add: json_dumps_error_def enc_roc enc_best)
  show ?thesis
    unfolding train_with_target_def X[symmetric]
    by (simp add: bind_m_def lift_def raise_if_def y sp log_output_def j
        train_loop_three[OF enc f1 f2 f3 dump] roc_loop_three[OF c1 c2 c3]
        del: roc_loop.simps)
qed

section \<open>The best model when no ROC-AUC exceeds 0\<close>

text \<open>
  C2. The run that departs from the claim: the processed file of project \<open>p1\<close> holds
  \<open>ten_rows_df\<close>, and all three candidates complete with the ROC-AUC 0. The running
  best starts at the score 0 with no model and changes only on a strictly greater
  ROC-AUC, so the \<open>best_model\<close> event names no candidate: its \<open>modelType\<close> is
  \<open>None\<close> and its score 0.
\<close>

theorem best_model_none_at_zero_auc:
  "train_models zero_auc_world ''data.csv'' ''p1'' ten_rows_state =
     (Inr (),
      ten_rows_state\<lparr>stdout :=
        [ModelUpdate ''logistic_regression'' (Training 0),
         ModelUpdate ''logistic_regression''
           (Completed
              (completed_of (encode_categoricals (drop_column ten_rows_df ''default''))
                 (candidate_result 0 [3 / 4, 1 / 4] ''logistic_regression''
                    (encode_categoricals (drop_column ten_rows_df ''default''))))),
         ModelUpdate ''decision_tree'' (Training 0),
         ModelUpdate ''decision_tree''
           (Completed
              (completed_of (encode_categoricals (drop_column ten_rows_df ''default''))
                 (candidate_result 0 [3 / 4, 1 / 4] ''decision_tree''
                    (encode_categoricals (drop_column ten_rows_df ''default''))))),
         ModelUpdate ''random_forest'' (Training 0),
         ModelUpdate ''random_forest''
           (Completed
              (completed_of (encode_categoricals (drop_column ten_rows_df ''default''))
                 (candidate_result 0 [3 / 4, 1 / 4] ''random_forest''
                    (encode_categoricals (drop_column ten_rows_df ''default''))))),
         RocData
           [(''logistic_regression'', \<lparr>fpr = [0, 1, 1], tpr = [0, 0, 1], auc = 0\<rparr>),
            (''decision_tree'', \<lparr>fpr = [0, 1, 1], tpr = [0, 0, 1], auc = 0\<rparr>),
            (''random_forest'', \<lparr>fpr = [0, 1, 1], tpr = [0, 0, 1], auc = 0\<rparr>)],
         BestModel None 0]\<rparr>) \<and>
   rocAuc (completed_of X (candidate_result 0 [3 / 4, 1 / 4] name X)) = 0"
proof -
  let ?X = "encode_categoricals (drop_column ten_rows_df ''default'')"
  let ?r = "\<lambda>name. candidate_result 0 [3 / 4, 1 / 4] name ?X"
  have f: "files ten_rows_state (processed_path ''p1'') = Some ten_rows_df"
    by (simp add: ten_rows_state_def)
  have y: "getitem ten_rows_df ''default'' = Inr (IntCol [0, 1, 0, 1, 0, 1, 0, 1, 0, 1])"
    by (simp add: getitem_def ten_rows_df_def)
  have g: "train_target (columns_of ten_rows_df) = Some ''default''"
    by (simp add: columns_of_def ten_rows_df_def lower_def lower_char_def
        train_potential_targets_def)
  have s: "stdout ten_rows_state = []" by (simp add: ten_rows_state_def)
  have a: "roc_auc (candidate_result 0 proba name X) = 0" for proba name X
    by (simp add: candidate_result_def)
  have p: "y_test (candidate_result 0 proba name X) = [Fin 0, Fin 1]"
    "y_pred_proba (candidate_result 0 proba name X) = proba" for proba name X
    by (simp_all add: candidate_result_def)
  have t: "train_with_target zero_auc_world ''p1'' ten_rows_df ''default'' ten_rows_state =
     (Inr (),
      ten_rows_state\<lparr>stdout :=
        [ModelUpdate ''logistic_regression'' (Training 0),
         ModelUpdate ''logistic_regression''
           (Completed (completed_of ?X (?r ''logistic_regression''))),
         ModelUpdate ''decision_tree'' (Training 0),
         ModelUpdate ''decision_tree'' (Completed (completed_of ?X (?r ''decision_tree''))),
         ModelUpdate ''random_forest'' (Training 0),
         ModelUpdate ''random_forest'' (Completed (completed_of ?X (?r ''random_forest''))),
         RocData
           [(''logistic_regression'', \<lparr>fpr = [0, 1, 1], tpr = [0, 0, 1], auc = 0\<rparr>),
            (''decision_tree'', \<lparr>fpr = [0, 1, 1], tpr = [0, 0, 1], auc = 0\<rparr>),
            (''random_forest'', \<lparr>fpr = [0, 1, 1], tpr = [0, 0, 1], auc = 0\<rparr>)],
         BestModel None 0]\<rparr>)"
    using train_with_target_three[where w = zero_auc_world and df = ten_rows_df
        and t = "''default''" and y = "IntCol [0, 1, 0, 1, 0, 1, 0, 1, 0, 1]" and X = ?X
        and ?r1.0 = "?r ''logistic_regression''" and ?r2.0 = "?r ''decision_tree''"
        and ?r3.0 = "?r ''random_forest''" and pid = "''p1''"
        and ?c1.0 = "([0, 1, 1], [0, 0, 1])" and ?c2.0 = "([0, 1, 1], [0, 0, 1])"
        and ?c3.0 = "([0, 1, 1], [0, 0, 1])" and s = ten_rows_state]
    by (simp add: y zero_auc_world_def ok_world_def a p s)
  have "train_body zero_auc_world ''data.csv'' ''p1'' ten_rows_state =
      train_with_target zero_auc_world ''p1'' ten_rows_df ''default'' ten_rows_state"
    by (simp add: train_body_processed[OF f] train_frame_def g)
  with t have "train_models zero_auc_world ''data.csv'' ''p1'' ten_rows_state =
      (Inr (),
       snd (train_with_target zero_auc_world ''p1'' ten_rows_df ''default'' ten_rows_state))"
    by (simp add: train_models_def)
  with t show ?thesis by (simp add: a completed_of_def)
qed

section \<open>Arithmetic on numeric columns does not raise\<close>









section \<open>The end-to-end scenario\<close>










end
